theory Spec2Isabelle
  imports Complex_Main "HOL-Library.Sublist" "HOL-Library.AList"
begin

section \<open>Exceptions\<close>

text \<open>
  The exceptions of the modelled code, as values. A function of the source that can raise
  returns \<open>exn + 'a\<close>, with \<open>Inl\<close> for the exception; a \<^verbatim>\<open>try\<close> block is a case
  distinction on that result. \<open>Exception\<close> stands for any exception raised by an external
  collaborator (network client, vector index), with its message. All of them are instances
  of Python's class \<^verbatim>\<open>Exception\<close>, which is what the handlers of the source catch;
  the cancellation of a coroutine and the interruption of the process are not modelled.
\<close>

datatype exn = KeyError string | IndexError | ValueError | Exception string

definition bind_exn :: "exn + 'a \<Rightarrow> ('a \<Rightarrow> exn + 'b) \<Rightarrow> exn + 'b" where
  "bind_exn m f = (case m of Inl e \<Rightarrow> Inl e | Inr x \<Rightarrow> f x)"

text \<open>Indexing \<^verbatim>\<open>xs[i]\<close> with a non-negative index.\<close>

definition py_nth :: "'a list \<Rightarrow> nat \<Rightarrow> exn + 'a" where
  "py_nth xs i = (if i < length xs then Inr (xs ! i) else Inl IndexError)"

text \<open>
  The slice \<^verbatim>\<open>xs[:k]\<close>: the first \<open>k\<close> elements, or all but the last \<open>-k\<close> when
  \<open>k\<close> is negative.
\<close>

definition py_take :: "int \<Rightarrow> 'a list \<Rightarrow> 'a list" where
  "py_take k xs = (if k < 0 then take (nat (int (length xs) + k)) xs else take (nat k) xs)"

text \<open>
  The slice \<^verbatim>\<open>xs[-k:]\<close> for \<open>k \<ge> 0\<close>: the last \<open>k\<close> elements, all of them when
  the list is shorter, and the whole list when \<open>k = 0\<close>, since \<^verbatim>\<open>-0\<close> is \<^verbatim>\<open>0\<close>.
\<close>

definition py_last :: "nat \<Rightarrow> 'a list \<Rightarrow> 'a list" where
  "py_last k xs = (if k = 0 then xs else drop (length xs - k) xs)"

section \<open>Fixed texts\<close>

text \<open>
  Python strings are modelled as \<^typ>\<open>string\<close>, holding the UTF-8 encoding of the text:
  concatenation and equality, the only operations the router and the prompt assembly
  perform on them, commute with the encoding. The Russian literals of the source are
  therefore written byte by byte.
\<close>

text \<open>\<^verbatim>\<open>llm_providers.py\<close>, line 309: the content of the result returned when no model answered.\<close>

definition sentinel_content :: string where
  "sentinel_content = [
    CHR 0xD0, CHR 0x98, CHR 0xD0, CHR 0xB7, CHR 0xD0, CHR 0xB2, CHR 0xD0, CHR 0xB8, CHR 0xD0,
    CHR 0xBD, CHR 0xD0, CHR 0xB8, CHR 0xD1, CHR 0x82, CHR 0xD0, CHR 0xB5, CHR 0x2C, CHR 0x20,
    CHR 0xD0, CHR 0xB2, CHR 0x20, CHR 0xD0, CHR 0xB4, CHR 0xD0, CHR 0xB0, CHR 0xD0, CHR 0xBD,
    CHR 0xD0, CHR 0xBD, CHR 0xD1, CHR 0x8B, CHR 0xD0, CHR 0xB9, CHR 0x20, CHR 0xD0, CHR 0xBC,
    CHR 0xD0, CHR 0xBE, CHR 0xD0, CHR 0xBC, CHR 0xD0, CHR 0xB5, CHR 0xD0, CHR 0xBD, CHR 0xD1,
    CHR 0x82, CHR 0x20, CHR 0xD1, CHR 0x81, CHR 0xD0, CHR 0xB5, CHR 0xD1, CHR 0x80, CHR 0xD0,
    CHR 0xB2, CHR 0xD0, CHR 0xB8, CHR 0xD1, CHR 0x81, CHR 0x20, CHR 0xD0, CHR 0xBD, CHR 0xD0,
    CHR 0xB5, CHR 0xD0, CHR 0xB4, CHR 0xD0, CHR 0xBE, CHR 0xD1, CHR 0x81, CHR 0xD1, CHR 0x82,
    CHR 0xD1, CHR 0x83, CHR 0xD0, CHR 0xBF, CHR 0xD0, CHR 0xB5, CHR 0xD0, CHR 0xBD, CHR 0x2E,
    CHR 0x20, CHR 0xD0, CHR 0x9F, CHR 0xD0, CHR 0xBE, CHR 0xD0, CHR 0xBF, CHR 0xD1, CHR 0x80,
    CHR 0xD0, CHR 0xBE, CHR 0xD0, CHR 0xB1, CHR 0xD1, CHR 0x83, CHR 0xD0, CHR 0xB9, CHR 0xD1,
    CHR 0x82, CHR 0xD0, CHR 0xB5, CHR 0x20, CHR 0xD0, CHR 0xBF, CHR 0xD0, CHR 0xBE, CHR 0xD0,
    CHR 0xB7, CHR 0xD0, CHR 0xB6, CHR 0xD0, CHR 0xB5, CHR 0x2E]"

text \<open>\<^verbatim>\<open>llm_providers.py\<close>, line 311: the error of that result.\<close>

definition sentinel_error :: string where
  "sentinel_error = [
    CHR 0xD0, CHR 0x92, CHR 0xD1, CHR 0x81, CHR 0xD0, CHR 0xB5, CHR 0x20, CHR 0xD0, CHR 0xBC,
    CHR 0xD0, CHR 0xBE, CHR 0xD0, CHR 0xB4, CHR 0xD0, CHR 0xB5, CHR 0xD0, CHR 0xBB, CHR 0xD0,
    CHR 0xB8, CHR 0x20, CHR 0xD0, CHR 0xBD, CHR 0xD0, CHR 0xB5, CHR 0xD0, CHR 0xB4, CHR 0xD0,
    CHR 0xBE, CHR 0xD1, CHR 0x81, CHR 0xD1, CHR 0x82, CHR 0xD1, CHR 0x83, CHR 0xD0, CHR 0xBF,
    CHR 0xD0, CHR 0xBD, CHR 0xD1, CHR 0x8B]"

section \<open>The generation router (\<^verbatim>\<open>core/llm_providers.py\<close>, class \<^verbatim>\<open>LLMManager\<close>)\<close>

text \<open>
  The dictionary every provider returns from \<^verbatim>\<open>generate_response\<close>. The keys
  \<^verbatim>\<open>tokens_used\<close> and \<^verbatim>\<open>response_time\<close> are present on success only and
  \<^verbatim>\<open>error\<close> on failure only, so these fields are optional; \<^verbatim>\<open>content\<close> is
  \<^verbatim>\<open>None\<close> on failure.
\<close>

record response =
  content :: "string option"
  model :: string
  tokens_used :: "nat option"
  response_time :: "real option"
  error :: "string option"
  success :: bool

text \<open>The two fields of \<^verbatim>\<open>Settings\<close> (\<^verbatim>\<open>core/config.py\<close>) the router reads.\<close>

record settings =
  default_model :: string
  fallback_models :: "string list"

text \<open>
  One call of a provider's \<^verbatim>\<open>generate_response\<close> either returns a dictionary or
  raises an exception (caught at line 303).
\<close>

datatype outcome = Returned response | Raised exn

text \<open>
  A provider is a stateful object behind a network, so what a call returns is not a
  function of its arguments. A provider is modelled by the outcome it gives as a function
  of the number of provider calls the router has already made during this request.
  \<^verbatim>\<open>self.providers\<close> is the dictionary from model names to providers.
\<close>

type_synonym provider = "nat \<Rightarrow> outcome"

type_synonym providers = "string \<rightharpoonup> provider"

text \<open>
  Lines 274--284. \<^verbatim>\<open>preferred_model\<close> defaults to \<^verbatim>\<open>None\<close>; the test
  \<^verbatim>\<open>preferred_model and preferred_model in self.providers\<close> is false for
  \<^verbatim>\<open>None\<close>, for the empty string and for a name that is not a key.
\<close>

definition model_order :: "providers \<Rightarrow> settings \<Rightarrow> string option \<Rightarrow> string list" where
  "model_order ps st preferred_model =
     (case preferred_model of
        Some p \<Rightarrow>
          if p \<noteq> [] \<and> p \<in> dom ps
          then [p] @ filter (\<lambda>m. m \<in> dom ps \<and> m \<noteq> p) (fallback_models st)
          else [default_model st] @
               filter (\<lambda>m. m \<in> dom ps \<and> m \<noteq> default_model st) (fallback_models st)
      | None \<Rightarrow>
          [default_model st] @
          filter (\<lambda>m. m \<in> dom ps \<and> m \<noteq> default_model st) (fallback_models st))"

text \<open>Lines 308--313.\<close>

definition sentinel :: response where
  "sentinel = \<lparr>content = Some sentinel_content, model = ''fallback'', tokens_used = None,
     response_time = None, error = Some sentinel_error, success = False\<rparr>"

text \<open>
  Lines 286--313, the loop over \<^verbatim>\<open>model_order\<close>. The second component of the result
  is the list of the models whose provider was called, in call order: it is not a value of
  the source but the record of its calls, kept so that "no backend is invoked after the
  first success" can be stated. The argument \<open>called\<close> is that list so far.
\<close>

fun try_models :: "providers \<Rightarrow> string list \<Rightarrow> string list \<Rightarrow> response \<times> string list" where
  "try_models ps [] called = (sentinel, called)"
| "try_models ps (model_name # rest) called =
     (case ps model_name of
        None \<Rightarrow> try_models ps rest called
      | Some provider \<Rightarrow>
          (case provider (length called) of
             Returned result \<Rightarrow>
               if success result then (result, called @ [model_name])
               else try_models ps rest (called @ [model_name])
           | Raised e \<Rightarrow> try_models ps rest (called @ [model_name])))"

definition generate_response ::
    "providers \<Rightarrow> settings \<Rightarrow> string option \<Rightarrow> response \<times> string list" where
  "generate_response ps st preferred_model =
     try_models ps (model_order ps st preferred_model) []"

text \<open>
  The models of \<^verbatim>\<open>model_order\<close> that the loop does not skip at lines 288--289: the
  order in which providers are attempted.
\<close>

definition attempt_order :: "providers \<Rightarrow> settings \<Rightarrow> string option \<Rightarrow> string list" where
  "attempt_order ps st preferred_model =
     filter (\<lambda>m. m \<in> dom ps) (model_order ps st preferred_model)"

text \<open>
  Vocabulary for statements about the loop. An attempt succeeds when the provider returns
  a dictionary whose \<^verbatim>\<open>success\<close> is true (line 297); a returned failure and a raised
  exception both let the loop go on.
\<close>

definition succeeds :: "outcome \<Rightarrow> bool" where
  "succeeds oc = (case oc of Returned r \<Rightarrow> success r | Raised e \<Rightarrow> False)"

text \<open>
  The outcome of attempt number \<open>i\<close> over the attempted models \<open>ms\<close>, when \<open>n\<close> calls
  were made before the first of them. Every name of an attempt order is a key of the
  providers; the \<open>None\<close> branch is there to keep the function total.
\<close>

definition attempt :: "providers \<Rightarrow> nat \<Rightarrow> string list \<Rightarrow> nat \<Rightarrow> outcome" where
  "attempt ps n ms i =
     (case ps (ms ! i) of Some provider \<Rightarrow> provider (n + i) | None \<Rightarrow> Raised (Exception []))"

text \<open>
  The attempt order in the words of the specification, section 4.4: start with the
  preferred backend if provided and configured; append the default backend if not already
  included; append each backend of the fallback list, in listed order, skipping any
  already included or not configured.
\<close>

definition spec_attempt_order :: "providers \<Rightarrow> settings \<Rightarrow> string option \<Rightarrow> string list" where
  "spec_attempt_order ps st preferred_backend =
     (let start = (case preferred_backend of
                     Some p \<Rightarrow> if p \<in> dom ps then [p] else []
                   | None \<Rightarrow> []);
          with_default = (if default_model st \<in> set start then start
                          else start @ [default_model st])
      in foldl (\<lambda>order m. if m \<in> set order \<or> m \<notin> dom ps then order else order @ [m])
           with_default (fallback_models st))"

text \<open>Sample providers and settings, used to evaluate the router on concrete inputs.\<close>

definition failing :: provider where
  "failing n = Returned \<lparr>content = None, model = ''deepseek'', tokens_used = None,
     response_time = None, error = Some ''DeepSeek API error: 500'', success = False\<rparr>"

definition answer :: response where
  "answer = \<lparr>content = Some ''ok'', model = ''gigachat'', tokens_used = Some 7,
     response_time = Some 1, error = None, success = True\<rparr>"

definition answering :: provider where
  "answering n = Returned answer"

definition two_providers :: providers where
  "two_providers = [''gigachat'' \<mapsto> answering, ''deepseek'' \<mapsto> failing]"

definition shipped_settings :: settings where
  "shipped_settings = \<lparr>default_model = ''gigachat'', fallback_models = [''deepseek'', ''openai'']\<rparr>"

definition raising :: provider where
  "raising n = Raised (Exception ''connection refused'')"

definition three_providers :: providers where
  "three_providers = [''gigachat'' \<mapsto> raising, ''deepseek'' \<mapsto> failing, ''openai'' \<mapsto> answering]"

definition reordered_settings :: settings where
  "reordered_settings = \<lparr>default_model = ''deepseek'', fallback_models = [''openai'', ''gigachat'']\<rparr>"

section \<open>Floating-point values\<close>

text \<open>
  A Python or NumPy float is a finite number, an infinity or NaN. Finite values are
  idealised as reals: rounding and overflow are not modelled. What is modelled is how the
  special values arise and propagate, following IEEE 754 as NumPy does: NumPy array
  arithmetic does not raise on a division by zero, it yields \<open>NaN\<close> for \<open>0/0\<close> and an
  infinity for \<open>x/0\<close> with \<open>x \<noteq> 0\<close> (and prints a warning).
\<close>

datatype npfloat = Num real | PInf | NInf | NaN

fun fneg :: "npfloat \<Rightarrow> npfloat" where
  "fneg (Num a) = Num (- a)"
| "fneg PInf = NInf"
| "fneg NInf = PInf"
| "fneg NaN = NaN"

fun fadd :: "npfloat \<Rightarrow> npfloat \<Rightarrow> npfloat" where
  "fadd (Num a) (Num b) = Num (a + b)"
| "fadd NaN y = NaN"
| "fadd x NaN = NaN"
| "fadd PInf NInf = NaN"
| "fadd NInf PInf = NaN"
| "fadd PInf y = PInf"
| "fadd x PInf = PInf"
| "fadd NInf y = NInf"
| "fadd x NInf = NInf"

definition fsub :: "npfloat \<Rightarrow> npfloat \<Rightarrow> npfloat" where
  "fsub x y = fadd x (fneg y)"

fun fmul :: "npfloat \<Rightarrow> npfloat \<Rightarrow> npfloat" where
  "fmul (Num a) (Num b) = Num (a * b)"
| "fmul NaN y = NaN"
| "fmul x NaN = NaN"
| "fmul PInf (Num b) = (if b = 0 then NaN else if 0 < b then PInf else NInf)"
| "fmul NInf (Num b) = (if b = 0 then NaN else if 0 < b then NInf else PInf)"
| "fmul (Num a) PInf = (if a = 0 then NaN else if 0 < a then PInf else NInf)"
| "fmul (Num a) NInf = (if a = 0 then NaN else if 0 < a then NInf else PInf)"
| "fmul PInf PInf = PInf"
| "fmul PInf NInf = NInf"
| "fmul NInf PInf = NInf"
| "fmul NInf NInf = PInf"

text \<open>
  The quotient of two finite values, the divisor being a norm, that is zero or positive
  (a positive zero): the only division of the modelled code on floats that may be by zero.
\<close>

definition np_divide :: "real \<Rightarrow> real \<Rightarrow> npfloat" where
  "np_divide a b =
     (if b = 0 then (if a = 0 then NaN else if 0 < a then PInf else NInf) else Num (a / b))"

text \<open>The comparison \<^verbatim>\<open><\<close> of floats: false as soon as one side is NaN.\<close>

fun float_lt :: "npfloat \<Rightarrow> npfloat \<Rightarrow> bool" where
  "float_lt (Num a) (Num b) = (a < b)"
| "float_lt NaN y = False"
| "float_lt x NaN = False"
| "float_lt x NInf = False"
| "float_lt PInf y = False"
| "float_lt NInf y = True"
| "float_lt x PInf = True"

text \<open>The property the specification asks of every score: a number of the interval \<open>[0,1]\<close>.\<close>

fun in_unit :: "npfloat \<Rightarrow> bool" where
  "in_unit (Num a) = (0 \<le> a \<and> a \<le> 1)"
| "in_unit x = False"

text \<open>
  \<^verbatim>\<open>xs.sort(key=key, reverse=True)\<close>: a stable sort in descending order of the key, so
  that elements with equal keys keep their order. Each element is inserted after the
  elements whose key is not less than its own. This is the result of Python's sort
  whenever no key is NaN; it is used below only on keys that are never NaN.
\<close>

fun insert_desc :: "('a \<Rightarrow> npfloat) \<Rightarrow> 'a \<Rightarrow> 'a list \<Rightarrow> 'a list" where
  "insert_desc key x [] = [x]"
| "insert_desc key x (y # ys) =
     (if float_lt (key y) (key x) then x # y # ys else y # insert_desc key x ys)"

definition sort_desc :: "('a \<Rightarrow> npfloat) \<Rightarrow> 'a list \<Rightarrow> 'a list" where
  "sort_desc key xs = foldl (\<lambda>sorted x. insert_desc key x sorted) [] xs"

section \<open>Similarity and keyword scores (\<^verbatim>\<open>models/embeddings.py\<close>)\<close>

text \<open>\<^verbatim>\<open>np.linalg.norm\<close> of a vector: the Euclidean norm.\<close>

definition linalg_norm :: "real list \<Rightarrow> real" where
  "linalg_norm vec = sqrt (sum_list (map (\<lambda>x. x * x) vec))"

text \<open>
  \<^verbatim>\<open>np.dot\<close> of two one-dimensional arrays: it raises \<^verbatim>\<open>ValueError\<close> when the
  lengths differ.
\<close>

definition np_dot :: "npfloat list \<Rightarrow> npfloat list \<Rightarrow> exn + npfloat" where
  "np_dot a b =
     (if length a \<noteq> length b then Inl ValueError
      else Inr (foldl fadd (Num 0) (map2 fmul a b)))"

text \<open>
  \<^verbatim>\<open>EmbeddingModel.calculate_similarity\<close>, lines 51--66. The embeddings are lists of
  finite floats. The two divisions by the norms are NumPy array divisions: they do not
  raise. The handler of line 64 turns the \<^verbatim>\<open>ValueError\<close> of \<^verbatim>\<open>np.dot\<close> into
  \<^verbatim>\<open>0.0\<close>.
\<close>

definition calculate_similarity :: "real list \<Rightarrow> real list \<Rightarrow> npfloat" where
  "calculate_similarity embedding1 embedding2 =
     (let vec1_norm = map (\<lambda>x. np_divide x (linalg_norm embedding1)) embedding1;
          vec2_norm = map (\<lambda>x. np_divide x (linalg_norm embedding2)) embedding2
      in case np_dot vec1_norm vec2_norm of
           Inr similarity \<Rightarrow> similarity
         | Inl e \<Rightarrow> Num 0)"

text \<open>
  The values a metadata \<^verbatim>\<open>id\<close> may take, as far as they can be dictionary keys:
  integers and strings. Integer keys matter, because a missing id is replaced by an
  integer (an index or a hash).
\<close>

datatype pyval = PInt int | PStr string

text \<open>
  A candidate document: the dictionary \<^verbatim>\<open>doc\<close>, read through
  \<^verbatim>\<open>doc.get("text", "")\<close> and \<^verbatim>\<open>doc.get("metadata", {}).get("id", ...)\<close>;
  \<open>metadata_id\<close> is \<open>None\<close> when there is no metadata or no \<^verbatim>\<open>id\<close> in it.
\<close>

record document =
  doc_text :: string
  metadata_id :: "pyval option"

text \<open>
  \<^verbatim>\<open>HybridSearch.keyword_search\<close>, lines 159--184. \<^verbatim>\<open>str.lower\<close> and
  \<^verbatim>\<open>str.split\<close> are Unicode-aware built-ins: they are parameters of the model. The
  score of one document is lines 167--172; an element of the result is the pair of the
  document and its \<^verbatim>\<open>keyword_score\<close>.
\<close>

definition overlap_score ::
    "(string \<Rightarrow> string) \<Rightarrow> (string \<Rightarrow> string list) \<Rightarrow> string \<Rightarrow> document \<Rightarrow> npfloat" where
  "overlap_score lower split query doc =
     (let query_words = set (split (lower query));
          doc_words = set (split (lower (doc_text doc)));
          intersection = query_words \<inter> doc_words
      in if query_words \<noteq> {} then Num (real (card intersection) / real (card query_words))
         else Num 0)"

definition keyword_search ::
    "(string \<Rightarrow> string) \<Rightarrow> (string \<Rightarrow> string list) \<Rightarrow> string \<Rightarrow> document list \<Rightarrow> int \<Rightarrow>
     (document \<times> npfloat) list" where
  "keyword_search lower split query documents top_k =
     (let scored_docs = map (\<lambda>doc. (doc, overlap_score lower split query doc)) documents
      in py_take top_k (sort_desc snd scored_docs))"

text \<open>
  Lower-casing and whitespace splitting of ASCII text, on which they agree with the
  built-ins; used to evaluate \<open>keyword_search\<close> on concrete inputs.
\<close>

definition ascii_lower :: "string \<Rightarrow> string" where
  "ascii_lower s =
     map (\<lambda>c. case map_of (zip ''ABCDEFGHIJKLMNOPQRSTUVWXYZ'' ''abcdefghijklmnopqrstuvwxyz'') c of
               Some l \<Rightarrow> l
             | None \<Rightarrow> c) s"

fun ascii_split_aux :: "string \<Rightarrow> string \<Rightarrow> string list" where
  "ascii_split_aux word [] = (if word = [] then [] else [word])"
| "ascii_split_aux word (c # cs) =
     (if c \<in> set [CHR '' '', CHR 0x09, CHR 0x0A, CHR 0x0B, CHR 0x0C, CHR 0x0D]
      then (if word = [] then [] else [word]) @ ascii_split_aux [] cs
      else ascii_split_aux (word @ [c]) cs)"

definition ascii_split :: "string \<Rightarrow> string list" where
  "ascii_split s = ascii_split_aux [] s"

section \<open>The vector store (\<^verbatim>\<open>models/vector_store.py\<close>)\<close>

text \<open>
  The metadata of a stored chunk, as far as the core reads it: \<^verbatim>\<open>title\<close> and
  \<^verbatim>\<open>source_url\<close>, each possibly absent.
\<close>

record metadata =
  title :: "string option"
  source_url :: "string option"

text \<open>
  What \<^verbatim>\<open>collection.query\<close> returns: for each key, one list per query embedding.
  Distances are floats computed by the index, an external collaborator.
\<close>

record query_result =
  ids :: "string list list"
  documents :: "string list list"
  metadatas :: "metadata list list"
  distances :: "npfloat list list"

text \<open>An element of the result of \<^verbatim>\<open>search_similar\<close> (lines 108--114).\<close>

record found =
  found_id :: string
  found_text :: string
  found_metadata :: metadata
  distance :: npfloat
  similarity :: npfloat

text \<open>\<^verbatim>\<open>results[key][0][i]\<close>.\<close>

definition first_query_nth :: "'a list list \<Rightarrow> nat \<Rightarrow> exn + 'a" where
  "first_query_nth xss i = bind_exn (py_nth xss 0) (\<lambda>xs. py_nth xs i)"

text \<open>Lines 108--114: the dictionary built for index \<open>i\<close>.\<close>

definition format_result :: "query_result \<Rightarrow> nat \<Rightarrow> exn + found" where
  "format_result results i =
     bind_exn (first_query_nth (ids results) i) (\<lambda>the_id.
     bind_exn (first_query_nth (documents results) i) (\<lambda>the_text.
     bind_exn (first_query_nth (metadatas results) i) (\<lambda>the_metadata.
     bind_exn (first_query_nth (distances results) i) (\<lambda>the_distance.
       Inr \<lparr>found_id = the_id, found_text = the_text, found_metadata = the_metadata,
            distance = the_distance, similarity = fsub (Num 1) the_distance\<rparr>))))"

text \<open>The loop of lines 107--114 over the indices, appending to \<^verbatim>\<open>formatted_results\<close>.\<close>

fun format_results :: "query_result \<Rightarrow> nat list \<Rightarrow> found list \<Rightarrow> exn + found list" where
  "format_results results [] formatted_results = Inr formatted_results"
| "format_results results (i # rest) formatted_results =
     bind_exn (format_result results i)
       (\<lambda>f. format_results results rest (formatted_results @ [f]))"

text \<open>
  \<^verbatim>\<open>ChromaVectorStore.search_similar\<close>, lines 88--119, from the outcome of
  \<^verbatim>\<open>collection.query\<close> on. Any exception, raised by the query or by an index out of
  range, is caught at line 117 and gives the empty list.
\<close>

definition search_similar :: "exn + query_result \<Rightarrow> found list" where
  "search_similar queried =
     (case queried of
        Inl e \<Rightarrow> []
      | Inr results \<Rightarrow>
          if documents results \<noteq> [] \<and> hd (documents results) \<noteq> []
          then (case format_results results [0..<length (hd (documents results))] [] of
                  Inr formatted_results \<Rightarrow> formatted_results
                | Inl e \<Rightarrow> [])
          else [])"

text \<open>Sample inputs of the retrieval, used to evaluate it.\<close>

definition one_result :: "npfloat \<Rightarrow> query_result" where
  "one_result d = \<lparr>ids = [[''chunk-1'']], documents = [[''ssl setup'']],
     metadatas = [[\<lparr>title = Some ''SSL'', source_url = None\<rparr>]], distances = [[d]]\<rparr>"

definition ssl_config :: document where
  "ssl_config = \<lparr>doc_text = ''ssl config'', metadata_id = None\<rparr>"

definition ssl_setup :: document where
  "ssl_setup = \<lparr>doc_text = ''ssl setup'', metadata_id = Some (PStr ''doc-1'')\<rparr>"

section \<open>Hybrid search (\<^verbatim>\<open>HybridSearch.hybrid_search\<close>, lines 203--240)\<close>

text \<open>
  The part of \<^verbatim>\<open>hybrid_search\<close> that merges the two result lists and computes the
  combined score. Its inputs are \<^verbatim>\<open>vector_results\<close>, a list of pairs of an index
  into \<^verbatim>\<open>documents\<close> and a similarity, and \<^verbatim>\<open>keyword_results\<close>, the result of
  \<^verbatim>\<open>keyword_search\<close>. A value of the dictionary \<^verbatim>\<open>combined_scores\<close>:
\<close>

record scores =
  document :: document
  vector_score :: npfloat
  keyword_score :: npfloat
  combined_score :: npfloat

text \<open>
  \<^verbatim>\<open>combined_scores\<close> is a dictionary, which keeps its keys in insertion order: an
  association list with distinct keys, where a new key goes to the end and an assignment
  to a present key keeps its place (\<open>AList.update\<close>).
\<close>

type_synonym combined_scores = "(pyval \<times> scores) list"

text \<open>
  Lines 206--219. The key of a vector result is the metadata id of its document and, when
  there is none, the index \<^verbatim>\<open>doc_index\<close>. \<^verbatim>\<open>documents[doc_index]\<close> raises
  \<^verbatim>\<open>IndexError\<close> out of range.
\<close>

fun add_vector_results ::
    "document list \<Rightarrow> (nat \<times> npfloat) list \<Rightarrow> combined_scores \<Rightarrow> exn + combined_scores" where
  "add_vector_results docs [] combined = Inr combined"
| "add_vector_results docs ((doc_index, sim) # rest) combined =
     bind_exn (py_nth docs doc_index) (\<lambda>doc.
       let doc_id = (case metadata_id doc of Some v \<Rightarrow> v | None \<Rightarrow> PInt (int doc_index))
       in add_vector_results docs rest
            (case map_of combined doc_id of
               None \<Rightarrow>
                 combined @ [(doc_id, \<lparr>document = doc, vector_score = sim,
                                        keyword_score = Num 0, combined_score = Num 0\<rparr>)]
             | Some s \<Rightarrow> AList.update doc_id (s\<lparr>vector_score := sim\<rparr>) combined))"

text \<open>
  Lines 222--234. The key of a keyword result is the metadata id of its document and, when
  there is none, \<^verbatim>\<open>hash(str(doc))\<close>: the built-in hash of the printed dictionary, a
  parameter of the model.
\<close>

fun add_keyword_results ::
    "(document \<Rightarrow> int) \<Rightarrow> (document \<times> npfloat) list \<Rightarrow> combined_scores \<Rightarrow> combined_scores" where
  "add_keyword_results str_hash [] combined = combined"
| "add_keyword_results str_hash ((doc, score) # rest) combined =
     (let doc_id = (case metadata_id doc of Some v \<Rightarrow> v | None \<Rightarrow> PInt (str_hash doc))
      in add_keyword_results str_hash rest
           (case map_of combined doc_id of
              None \<Rightarrow>
                combined @ [(doc_id, \<lparr>document = doc, vector_score = Num 0,
                                       keyword_score = score, combined_score = Num 0\<rparr>)]
            | Some s \<Rightarrow> AList.update doc_id (s\<lparr>keyword_score := score\<rparr>) combined))"

text \<open>Lines 237--240.\<close>

definition combine_scores :: "npfloat \<Rightarrow> combined_scores \<Rightarrow> combined_scores" where
  "combine_scores vector_weight combined =
     map (\<lambda>(doc_id, s).
            (doc_id, s\<lparr>combined_score :=
               fadd (fmul vector_weight (vector_score s))
                    (fmul (fsub (Num 1) vector_weight) (keyword_score s))\<rparr>))
         combined"

text \<open>
  Lines 203--240 together. An \<^verbatim>\<open>IndexError\<close> makes \<^verbatim>\<open>hybrid_search\<close> return the
  empty list (line 247).
\<close>

definition hybrid_search_scores ::
    "(document \<Rightarrow> int) \<Rightarrow> document list \<Rightarrow> (nat \<times> npfloat) list \<Rightarrow> (document \<times> npfloat) list \<Rightarrow>
     npfloat \<Rightarrow> exn + combined_scores" where
  "hybrid_search_scores str_hash docs vector_results keyword_results vector_weight =
     bind_exn (add_vector_results docs vector_results [])
       (\<lambda>combined. Inr (combine_scores vector_weight
                           (add_keyword_results str_hash keyword_results combined)))"

text \<open>
  Vocabulary for statements about the merge: the dictionary key under which the first loop
  files the document at an index, and the key under which the second loop files a document.
\<close>

definition vector_key :: "document list \<Rightarrow> nat \<Rightarrow> pyval" where
  "vector_key docs doc_index =
     (case metadata_id (docs ! doc_index) of Some v \<Rightarrow> v | None \<Rightarrow> PInt (int doc_index))"

definition keyword_key :: "(document \<Rightarrow> int) \<Rightarrow> document \<Rightarrow> pyval" where
  "keyword_key str_hash doc =
     (case metadata_id doc of Some v \<Rightarrow> v | None \<Rightarrow> PInt (str_hash doc))"

section \<open>The RAG engine (\<^verbatim>\<open>models/rag_engine.py\<close>)\<close>

subsection \<open>Fixed texts of the engine\<close>

text \<open>\<^verbatim>\<open>RAGEngine._get_system_prompt\<close>, lines 18--30.\<close>

definition system_prompt_text :: string where
  "system_prompt_text = [
    CHR 0xD0, CHR 0xA2, CHR 0xD1, CHR 0x8B, CHR 0x20, CHR 0x2D, CHR 0x20, CHR 0xD0, CHR 0xBF,
    CHR 0xD0, CHR 0xBE, CHR 0xD0, CHR 0xBC, CHR 0xD0, CHR 0xBE, CHR 0xD1, CHR 0x89, CHR 0xD0,
    CHR 0xBD, CHR 0xD0, CHR 0xB8, CHR 0xD0, CHR 0xBA, CHR 0x20, CHR 0xD0, CHR 0xBF, CHR 0xD0,
    CHR 0xBE, CHR 0xD0, CHR 0xB4, CHR 0xD0, CHR 0xB4, CHR 0xD0, CHR 0xB5, CHR 0xD1, CHR 0x80,
    CHR 0xD0, CHR 0xB6, CHR 0xD0, CHR 0xBA, CHR 0xD0, CHR 0xB8, CHR 0x20, CHR 0xD1, CHR 0x80,
    CHR 0xD0, CHR 0xB0, CHR 0xD0, CHR 0xB7, CHR 0xD1, CHR 0x80, CHR 0xD0, CHR 0xB0, CHR 0xD0,
    CHR 0xB1, CHR 0xD0, CHR 0xBE, CHR 0xD1, CHR 0x82, CHR 0xD1, CHR 0x87, CHR 0xD0, CHR 0xB8,
    CHR 0xD0, CHR 0xBA, CHR 0xD0, CHR 0xBE, CHR 0xD0, CHR 0xB2, CHR 0x2E, CHR 0x20, CHR 0xD0,
    CHR 0xA2, CHR 0xD0, CHR 0xB2, CHR 0xD0, CHR 0xBE, CHR 0xD1, CHR 0x8F, CHR 0x20, CHR 0xD0,
    CHR 0xB7, CHR 0xD0, CHR 0xB0, CHR 0xD0, CHR 0xB4, CHR 0xD0, CHR 0xB0, CHR 0xD1, CHR 0x87,
    CHR 0xD0, CHR 0xB0, CHR 0x20, CHR 0x2D, CHR 0x20, CHR 0xD0, CHR 0xBF, CHR 0xD0, CHR 0xBE,
    CHR 0xD0, CHR 0xBC, CHR 0xD0, CHR 0xBE, CHR 0xD0, CHR 0xB3, CHR 0xD0, CHR 0xB0, CHR 0xD1,
    CHR 0x82, CHR 0xD1, CHR 0x8C, CHR 0x20, CHR 0xD1, CHR 0x80, CHR 0xD0, CHR 0xB0, CHR 0xD0,
    CHR 0xB7, CHR 0xD1, CHR 0x80, CHR 0xD0, CHR 0xB0, CHR 0xD0, CHR 0xB1, CHR 0xD0, CHR 0xBE,
    CHR 0xD1, CHR 0x82, CHR 0xD1, CHR 0x87, CHR 0xD0, CHR 0xB8, CHR 0xD0, CHR 0xBA, CHR 0xD0,
    CHR 0xB0, CHR 0xD0, CHR 0xBC, CHR 0x20, CHR 0xD1, CHR 0x80, CHR 0xD0, CHR 0xB5, CHR 0xD1,
    CHR 0x88, CHR 0xD0, CHR 0xB0, CHR 0xD1, CHR 0x82, CHR 0xD1, CHR 0x8C, CHR 0x20, CHR 0xD1,
    CHR 0x82, CHR 0xD0, CHR 0xB5, CHR 0xD1, CHR 0x85, CHR 0xD0, CHR 0xBD, CHR 0xD0, CHR 0xB8,
    CHR 0xD1, CHR 0x87, CHR 0xD0, CHR 0xB5, CHR 0xD1, CHR 0x81, CHR 0xD0, CHR 0xBA, CHR 0xD0,
    CHR 0xB8, CHR 0xD0, CHR 0xB5, CHR 0x20, CHR 0xD0, CHR 0xB2, CHR 0xD0, CHR 0xBE, CHR 0xD0,
    CHR 0xBF, CHR 0xD1, CHR 0x80, CHR 0xD0, CHR 0xBE, CHR 0xD1, CHR 0x81, CHR 0xD1, CHR 0x8B,
    CHR 0x2C, CHR 0x20, CHR 0xD1, CHR 0x81, CHR 0xD0, CHR 0xB2, CHR 0xD1, CHR 0x8F, CHR 0xD0,
    CHR 0xB7, CHR 0xD0, CHR 0xB0, CHR 0xD0, CHR 0xBD, CHR 0xD0, CHR 0xBD, CHR 0xD1, CHR 0x8B,
    CHR 0xD0, CHR 0xB5, CHR 0x20, CHR 0xD1, CHR 0x81, CHR 0x3A, CHR 0x0A, CHR 0x0A, CHR 0x31,
    CHR 0x2E, CHR 0x20, CHR 0x43, CHR 0x49, CHR 0x2F, CHR 0x43, CHR 0x44, CHR 0x20, CHR 0xD0,
    CHR 0xBF, CHR 0xD1, CHR 0x80, CHR 0xD0, CHR 0xBE, CHR 0xD1, CHR 0x86, CHR 0xD0, CHR 0xB5,
    CHR 0xD1, CHR 0x81, CHR 0xD1, CHR 0x81, CHR 0xD0, CHR 0xB0, CHR 0xD0, CHR 0xBC, CHR 0xD0,
    CHR 0xB8, CHR 0x20, CHR 0xD0, CHR 0xB8, CHR 0x20, CHR 0xD0, CHR 0xBF, CHR 0xD0, CHR 0xB0,
    CHR 0xD0, CHR 0xB9, CHR 0xD0, CHR 0xBF, CHR 0xD0, CHR 0xBB, CHR 0xD0, CHR 0xB0, CHR 0xD0,
    CHR 0xB9, CHR 0xD0, CHR 0xBD, CHR 0xD0, CHR 0xB0, CHR 0xD0, CHR 0xBC, CHR 0xD0, CHR 0xB8,
    CHR 0x0A, CHR 0x32, CHR 0x2E, CHR 0x20, CHR 0xD0, CHR 0xA0, CHR 0xD0, CHR 0xB0, CHR 0xD0,
    CHR 0xB7, CHR 0xD1, CHR 0x80, CHR 0xD0, CHR 0xB0, CHR 0xD0, CHR 0xB1, CHR 0xD0, CHR 0xBE,
    CHR 0xD1, CHR 0x82, CHR 0xD0, CHR 0xBA, CHR 0xD0, CHR 0xBE, CHR 0xD0, CHR 0xB9, CHR 0x20,
    CHR 0xD0, CHR 0xB8, CHR 0x20, CHR 0xD0, CHR 0xB4, CHR 0xD0, CHR 0xB5, CHR 0xD0, CHR 0xBF,
    CHR 0xD0, CHR 0xBB, CHR 0xD0, CHR 0xBE, CHR 0xD0, CHR 0xB5, CHR 0xD0, CHR 0xBC, CHR 0x20,
    CHR 0xD0, CHR 0xBF, CHR 0xD1, CHR 0x80, CHR 0xD0, CHR 0xB8, CHR 0xD0, CHR 0xBB, CHR 0xD0,
    CHR 0xBE, CHR 0xD0, CHR 0xB6, CHR 0xD0, CHR 0xB5, CHR 0xD0, CHR 0xBD, CHR 0xD0, CHR 0xB8,
    CHR 0xD0, CHR 0xB9, CHR 0x0A, CHR 0x33, CHR 0x2E, CHR 0x20, CHR 0xD0, CHR 0xA0, CHR 0xD0,
    CHR 0xB0, CHR 0xD0, CHR 0xB1, CHR 0xD0, CHR 0xBE, CHR 0xD1, CHR 0x82, CHR 0xD0, CHR 0xBE,
    CHR 0xD0, CHR 0xB9, CHR 0x20, CHR 0xD1, CHR 0x81, CHR 0x20, CHR 0xD0, CHR 0xB1, CHR 0xD0,
    CHR 0xB0, CHR 0xD0, CHR 0xB7, CHR 0xD0, CHR 0xB0, CHR 0xD0, CHR 0xBC, CHR 0xD0, CHR 0xB8,
    CHR 0x20, CHR 0xD0, CHR 0xB4, CHR 0xD0, CHR 0xB0, CHR 0xD0, CHR 0xBD, CHR 0xD0, CHR 0xBD,
    CHR 0xD1, CHR 0x8B, CHR 0xD1, CHR 0x85, CHR 0x20, CHR 0xD0, CHR 0xB8, CHR 0x20, CHR 0x41,
    CHR 0x50, CHR 0x49, CHR 0x0A, CHR 0x34, CHR 0x2E, CHR 0x20, CHR 0xD0, CHR 0x9E, CHR 0xD1,
    CHR 0x82, CHR 0xD0, CHR 0xBB, CHR 0xD0, CHR 0xB0, CHR 0xD0, CHR 0xB4, CHR 0xD0, CHR 0xBA,
    CHR 0xD0, CHR 0xBE, CHR 0xD0, CHR 0xB9, CHR 0x20, CHR 0xD0, CHR 0xB8, CHR 0x20, CHR 0xD1,
    CHR 0x80, CHR 0xD0, CHR 0xB5, CHR 0xD1, CHR 0x88, CHR 0xD0, CHR 0xB5, CHR 0xD0, CHR 0xBD,
    CHR 0xD0, CHR 0xB8, CHR 0xD0, CHR 0xB5, CHR 0xD0, CHR 0xBC, CHR 0x20, CHR 0xD0, CHR 0xBF,
    CHR 0xD1, CHR 0x80, CHR 0xD0, CHR 0xBE, CHR 0xD0, CHR 0xB1, CHR 0xD0, CHR 0xBB, CHR 0xD0,
    CHR 0xB5, CHR 0xD0, CHR 0xBC, CHR 0x0A, CHR 0x35, CHR 0x2E, CHR 0x20, CHR 0xD0, CHR 0x9B,
    CHR 0xD1, CHR 0x83, CHR 0xD1, CHR 0x87, CHR 0xD1, CHR 0x88, CHR 0xD0, CHR 0xB8, CHR 0xD0,
    CHR 0xBC, CHR 0xD0, CHR 0xB8, CHR 0x20, CHR 0xD0, CHR 0xBF, CHR 0xD1, CHR 0x80, CHR 0xD0,
    CHR 0xB0, CHR 0xD0, CHR 0xBA, CHR 0xD1, CHR 0x82, CHR 0xD0, CHR 0xB8, CHR 0xD0, CHR 0xBA,
    CHR 0xD0, CHR 0xB0, CHR 0xD0, CHR 0xBC, CHR 0xD0, CHR 0xB8, CHR 0x20, CHR 0xD1, CHR 0x80,
    CHR 0xD0, CHR 0xB0, CHR 0xD0, CHR 0xB7, CHR 0xD1, CHR 0x80, CHR 0xD0, CHR 0xB0, CHR 0xD0,
    CHR 0xB1, CHR 0xD0, CHR 0xBE, CHR 0xD1, CHR 0x82, CHR 0xD0, CHR 0xBA, CHR 0xD0, CHR 0xB8,
    CHR 0x0A, CHR 0x0A, CHR 0xD0, CHR 0x98, CHR 0xD1, CHR 0x81, CHR 0xD0, CHR 0xBF, CHR 0xD0,
    CHR 0xBE, CHR 0xD0, CHR 0xBB, CHR 0xD1, CHR 0x8C, CHR 0xD0, CHR 0xB7, CHR 0xD1, CHR 0x83,
    CHR 0xD0, CHR 0xB9, CHR 0x20, CHR 0xD0, CHR 0xBF, CHR 0xD1, CHR 0x80, CHR 0xD0, CHR 0xB5,
    CHR 0xD0, CHR 0xB4, CHR 0xD0, CHR 0xBE, CHR 0xD1, CHR 0x81, CHR 0xD1, CHR 0x82, CHR 0xD0,
    CHR 0xB0, CHR 0xD0, CHR 0xB2, CHR 0xD0, CHR 0xBB, CHR 0xD0, CHR 0xB5, CHR 0xD0, CHR 0xBD,
    CHR 0xD0, CHR 0xBD, CHR 0xD1, CHR 0x8B, CHR 0xD0, CHR 0xB9, CHR 0x20, CHR 0xD0, CHR 0xBA,
    CHR 0xD0, CHR 0xBE, CHR 0xD0, CHR 0xBD, CHR 0xD1, CHR 0x82, CHR 0xD0, CHR 0xB5, CHR 0xD0,
    CHR 0xBA, CHR 0xD1, CHR 0x81, CHR 0xD1, CHR 0x82, CHR 0x20, CHR 0xD0, CHR 0xB4, CHR 0xD0,
    CHR 0xBB, CHR 0xD1, CHR 0x8F, CHR 0x20, CHR 0xD1, CHR 0x84, CHR 0xD0, CHR 0xBE, CHR 0xD1,
    CHR 0x80, CHR 0xD0, CHR 0xBC, CHR 0xD0, CHR 0xB8, CHR 0xD1, CHR 0x80, CHR 0xD0, CHR 0xBE,
    CHR 0xD0, CHR 0xB2, CHR 0xD0, CHR 0xB0, CHR 0xD0, CHR 0xBD, CHR 0xD0, CHR 0xB8, CHR 0xD1,
    CHR 0x8F, CHR 0x20, CHR 0xD1, CHR 0x82, CHR 0xD0, CHR 0xBE, CHR 0xD1, CHR 0x87, CHR 0xD0,
    CHR 0xBD, CHR 0xD1, CHR 0x8B, CHR 0xD1, CHR 0x85, CHR 0x20, CHR 0xD0, CHR 0xB8, CHR 0x20,
    CHR 0xD0, CHR 0xBF, CHR 0xD0, CHR 0xBE, CHR 0xD0, CHR 0xBB, CHR 0xD0, CHR 0xB5, CHR 0xD0,
    CHR 0xB7, CHR 0xD0, CHR 0xBD, CHR 0xD1, CHR 0x8B, CHR 0xD1, CHR 0x85, CHR 0x20, CHR 0xD0,
    CHR 0xBE, CHR 0xD1, CHR 0x82, CHR 0xD0, CHR 0xB2, CHR 0xD0, CHR 0xB5, CHR 0xD1, CHR 0x82,
    CHR 0xD0, CHR 0xBE, CHR 0xD0, CHR 0xB2, CHR 0x2E, CHR 0x20, CHR 0xD0, CHR 0x95, CHR 0xD1,
    CHR 0x81, CHR 0xD0, CHR 0xBB, CHR 0xD0, CHR 0xB8, CHR 0x20, CHR 0xD0, CHR 0xB2, CHR 0x20,
    CHR 0xD0, CHR 0xBA, CHR 0xD0, CHR 0xBE, CHR 0xD0, CHR 0xBD, CHR 0xD1, CHR 0x82, CHR 0xD0,
    CHR 0xB5, CHR 0xD0, CHR 0xBA, CHR 0xD1, CHR 0x81, CHR 0xD1, CHR 0x82, CHR 0xD0, CHR 0xB5,
    CHR 0x20, CHR 0xD0, CHR 0xBD, CHR 0xD0, CHR 0xB5, CHR 0xD1, CHR 0x82, CHR 0x20, CHR 0xD0,
    CHR 0xB8, CHR 0xD0, CHR 0xBD, CHR 0xD1, CHR 0x84, CHR 0xD0, CHR 0xBE, CHR 0xD1, CHR 0x80,
    CHR 0xD0, CHR 0xBC, CHR 0xD0, CHR 0xB0, CHR 0xD1, CHR 0x86, CHR 0xD0, CHR 0xB8, CHR 0xD0,
    CHR 0xB8, CHR 0x20, CHR 0xD0, CHR 0xB4, CHR 0xD0, CHR 0xBB, CHR 0xD1, CHR 0x8F, CHR 0x20,
    CHR 0xD0, CHR 0xBE, CHR 0xD1, CHR 0x82, CHR 0xD0, CHR 0xB2, CHR 0xD0, CHR 0xB5, CHR 0xD1,
    CHR 0x82, CHR 0xD0, CHR 0xB0, CHR 0x2C, CHR 0x20, CHR 0xD1, CHR 0x87, CHR 0xD0, CHR 0xB5,
    CHR 0xD1, CHR 0x81, CHR 0xD1, CHR 0x82, CHR 0xD0, CHR 0xBD, CHR 0xD0, CHR 0xBE, CHR 0x20,
    CHR 0xD1, CHR 0x81, CHR 0xD0, CHR 0xBA, CHR 0xD0, CHR 0xB0, CHR 0xD0, CHR 0xB6, CHR 0xD0,
    CHR 0xB8, CHR 0x20, CHR 0xD0, CHR 0xBE, CHR 0xD0, CHR 0xB1, CHR 0x20, CHR 0xD1, CHR 0x8D,
    CHR 0xD1, CHR 0x82, CHR 0xD0, CHR 0xBE, CHR 0xD0, CHR 0xBC, CHR 0x20, CHR 0xD0, CHR 0xB8,
    CHR 0x20, CHR 0xD0, CHR 0xBF, CHR 0xD1, CHR 0x80, CHR 0xD0, CHR 0xB5, CHR 0xD0, CHR 0xB4,
    CHR 0xD0, CHR 0xBB, CHR 0xD0, CHR 0xBE, CHR 0xD0, CHR 0xB6, CHR 0xD0, CHR 0xB8, CHR 0x20,
    CHR 0xD0, CHR 0xBE, CHR 0xD0, CHR 0xB1, CHR 0xD1, CHR 0x80, CHR 0xD0, CHR 0xB0, CHR 0xD1,
    CHR 0x82, CHR 0xD0, CHR 0xB8, CHR 0xD1, CHR 0x82, CHR 0xD1, CHR 0x8C, CHR 0xD1, CHR 0x81,
    CHR 0xD1, CHR 0x8F, CHR 0x20, CHR 0xD0, CHR 0xBA, CHR 0x20, CHR 0xD0, CHR 0xBA, CHR 0xD0,
    CHR 0xBE, CHR 0xD0, CHR 0xBC, CHR 0xD0, CHR 0xB0, CHR 0xD0, CHR 0xBD, CHR 0xD0, CHR 0xB4,
    CHR 0xD0, CHR 0xB5, CHR 0x20, CHR 0xD0, CHR 0xBF, CHR 0xD0, CHR 0xBE, CHR 0xD0, CHR 0xB4,
    CHR 0xD0, CHR 0xB4, CHR 0xD0, CHR 0xB5, CHR 0xD1, CHR 0x80, CHR 0xD0, CHR 0xB6, CHR 0xD0,
    CHR 0xBA, CHR 0xD0, CHR 0xB8, CHR 0x2E, CHR 0x0A, CHR 0x0A, CHR 0xD0, CHR 0x9E, CHR 0xD1,
    CHR 0x82, CHR 0xD0, CHR 0xB2, CHR 0xD0, CHR 0xB5, CHR 0xD1, CHR 0x87, CHR 0xD0, CHR 0xB0,
    CHR 0xD0, CHR 0xB9, CHR 0x20, CHR 0xD0, CHR 0xBD, CHR 0xD0, CHR 0xB0, CHR 0x20, CHR 0xD1,
    CHR 0x80, CHR 0xD1, CHR 0x83, CHR 0xD1, CHR 0x81, CHR 0xD1, CHR 0x81, CHR 0xD0, CHR 0xBA,
    CHR 0xD0, CHR 0xBE, CHR 0xD0, CHR 0xBC, CHR 0x20, CHR 0xD1, CHR 0x8F, CHR 0xD0, CHR 0xB7,
    CHR 0xD1, CHR 0x8B, CHR 0xD0, CHR 0xBA, CHR 0xD0, CHR 0xB5, CHR 0x2C, CHR 0x20, CHR 0xD0,
    CHR 0xB5, CHR 0xD1, CHR 0x81, CHR 0xD0, CHR 0xBB, CHR 0xD0, CHR 0xB8, CHR 0x20, CHR 0xD0,
    CHR 0xB2, CHR 0xD0, CHR 0xBE, CHR 0xD0, CHR 0xBF, CHR 0xD1, CHR 0x80, CHR 0xD0, CHR 0xBE,
    CHR 0xD1, CHR 0x81, CHR 0x20, CHR 0xD0, CHR 0xB7, CHR 0xD0, CHR 0xB0, CHR 0xD0, CHR 0xB4,
    CHR 0xD0, CHR 0xB0, CHR 0xD0, CHR 0xBD, CHR 0x20, CHR 0xD0, CHR 0xBD, CHR 0xD0, CHR 0xB0,
    CHR 0x20, CHR 0xD1, CHR 0x80, CHR 0xD1, CHR 0x83, CHR 0xD1, CHR 0x81, CHR 0xD1, CHR 0x81,
    CHR 0xD0, CHR 0xBA, CHR 0xD0, CHR 0xBE, CHR 0xD0, CHR 0xBC, CHR 0x2C, CHR 0x20, CHR 0xD0,
    CHR 0xB8, CHR 0x20, CHR 0xD0, CHR 0xBD, CHR 0xD0, CHR 0xB0, CHR 0x20, CHR 0xD0, CHR 0xB0,
    CHR 0xD0, CHR 0xBD, CHR 0xD0, CHR 0xB3, CHR 0xD0, CHR 0xBB, CHR 0xD0, CHR 0xB8, CHR 0xD0,
    CHR 0xB9, CHR 0xD1, CHR 0x81, CHR 0xD0, CHR 0xBA, CHR 0xD0, CHR 0xBE, CHR 0xD0, CHR 0xBC,
    CHR 0x2C, CHR 0x20, CHR 0xD0, CHR 0xB5, CHR 0xD1, CHR 0x81, CHR 0xD0, CHR 0xBB, CHR 0xD0,
    CHR 0xB8, CHR 0x20, CHR 0xD0, CHR 0xB2, CHR 0xD0, CHR 0xBE, CHR 0xD0, CHR 0xBF, CHR 0xD1,
    CHR 0x80, CHR 0xD0, CHR 0xBE, CHR 0xD1, CHR 0x81, CHR 0x20, CHR 0xD0, CHR 0xB7, CHR 0xD0,
    CHR 0xB0, CHR 0xD0, CHR 0xB4, CHR 0xD0, CHR 0xB0, CHR 0xD0, CHR 0xBD, CHR 0x20, CHR 0xD0,
    CHR 0xBD, CHR 0xD0, CHR 0xB0, CHR 0x20, CHR 0xD0, CHR 0xB0, CHR 0xD0, CHR 0xBD, CHR 0xD0,
    CHR 0xB3, CHR 0xD0, CHR 0xBB, CHR 0xD0, CHR 0xB8, CHR 0xD0, CHR 0xB9, CHR 0xD1, CHR 0x81,
    CHR 0xD0, CHR 0xBA, CHR 0xD0, CHR 0xBE, CHR 0xD0, CHR 0xBC, CHR 0x2E, CHR 0x0A, CHR 0x0A,
    CHR 0xD0, CHR 0xA4, CHR 0xD0, CHR 0xBE, CHR 0xD1, CHR 0x80, CHR 0xD0, CHR 0xBC, CHR 0xD0,
    CHR 0xB0, CHR 0xD1, CHR 0x82, CHR 0xD0, CHR 0xB8, CHR 0xD1, CHR 0x80, CHR 0xD1, CHR 0x83,
    CHR 0xD0, CHR 0xB9, CHR 0x20, CHR 0xD0, CHR 0xBE, CHR 0xD1, CHR 0x82, CHR 0xD0, CHR 0xB2,
    CHR 0xD0, CHR 0xB5, CHR 0xD1, CHR 0x82, CHR 0xD1, CHR 0x8B, CHR 0x20, CHR 0xD1, CHR 0x81,
    CHR 0x20, CHR 0xD0, CHR 0xB8, CHR 0xD1, CHR 0x81, CHR 0xD0, CHR 0xBF, CHR 0xD0, CHR 0xBE,
    CHR 0xD0, CHR 0xBB, CHR 0xD1, CHR 0x8C, CHR 0xD0, CHR 0xB7, CHR 0xD0, CHR 0xBE, CHR 0xD0,
    CHR 0xB2, CHR 0xD0, CHR 0xB0, CHR 0xD0, CHR 0xBD, CHR 0xD0, CHR 0xB8, CHR 0xD0, CHR 0xB5,
    CHR 0xD0, CHR 0xBC, CHR 0x20, CHR 0x4D, CHR 0x61, CHR 0x72, CHR 0x6B, CHR 0x64, CHR 0x6F,
    CHR 0x77, CHR 0x6E, CHR 0x20, CHR 0xD0, CHR 0xB4, CHR 0xD0, CHR 0xBB, CHR 0xD1, CHR 0x8F,
    CHR 0x20, CHR 0xD0, CHR 0xBB, CHR 0xD1, CHR 0x83, CHR 0xD1, CHR 0x87, CHR 0xD1, CHR 0x88,
    CHR 0xD0, CHR 0xB5, CHR 0xD0, CHR 0xB9, CHR 0x20, CHR 0xD1, CHR 0x87, CHR 0xD0, CHR 0xB8,
    CHR 0xD1, CHR 0x82, CHR 0xD0, CHR 0xB0, CHR 0xD0, CHR 0xB5, CHR 0xD0, CHR 0xBC, CHR 0xD0,
    CHR 0xBE, CHR 0xD1, CHR 0x81, CHR 0xD1, CHR 0x82, CHR 0xD0, CHR 0xB8, CHR 0x20, CHR 0xD0,
    CHR 0xBA, CHR 0xD0, CHR 0xBE, CHR 0xD0, CHR 0xB4, CHR 0xD0, CHR 0xB0, CHR 0x20, CHR 0xD0,
    CHR 0xB8, CHR 0x20, CHR 0xD0, CHR 0xBA, CHR 0xD0, CHR 0xBE, CHR 0xD0, CHR 0xBC, CHR 0xD0,
    CHR 0xB0, CHR 0xD0, CHR 0xBD, CHR 0xD0, CHR 0xB4, CHR 0x2E]"

text \<open>Line 117: the text before and after the rendered context.\<close>

definition context_header :: string where
  "context_header = [
    CHR 0xD0, CHR 0x9A, CHR 0xD0, CHR 0xBE, CHR 0xD0, CHR 0xBD, CHR 0xD1, CHR 0x82, CHR 0xD0,
    CHR 0xB5, CHR 0xD0, CHR 0xBA, CHR 0xD1, CHR 0x81, CHR 0xD1, CHR 0x82, CHR 0x20, CHR 0xD0,
    CHR 0xB4, CHR 0xD0, CHR 0xBB, CHR 0xD1, CHR 0x8F, CHR 0x20, CHR 0xD0, CHR 0xBE, CHR 0xD1,
    CHR 0x82, CHR 0xD0, CHR 0xB2, CHR 0xD0, CHR 0xB5, CHR 0xD1, CHR 0x82, CHR 0xD0, CHR 0xB0,
    CHR 0x3A, CHR 0x0A, CHR 0x0A]"

definition context_footer :: string where
  "context_footer = [
    CHR 0x0A, CHR 0x0A, CHR 0xD0, CHR 0x98, CHR 0xD1, CHR 0x81, CHR 0xD0, CHR 0xBF, CHR 0xD0,
    CHR 0xBE, CHR 0xD0, CHR 0xBB, CHR 0xD1, CHR 0x8C, CHR 0xD0, CHR 0xB7, CHR 0xD1, CHR 0x83,
    CHR 0xD0, CHR 0xB9, CHR 0x20, CHR 0xD1, CHR 0x8D, CHR 0xD1, CHR 0x82, CHR 0xD1, CHR 0x83,
    CHR 0x20, CHR 0xD0, CHR 0xB8, CHR 0xD0, CHR 0xBD, CHR 0xD1, CHR 0x84, CHR 0xD0, CHR 0xBE,
    CHR 0xD1, CHR 0x80, CHR 0xD0, CHR 0xBC, CHR 0xD0, CHR 0xB0, CHR 0xD1, CHR 0x86, CHR 0xD0,
    CHR 0xB8, CHR 0xD1, CHR 0x8E, CHR 0x20, CHR 0xD0, CHR 0xB4, CHR 0xD0, CHR 0xBB, CHR 0xD1,
    CHR 0x8F, CHR 0x20, CHR 0xD1, CHR 0x84, CHR 0xD0, CHR 0xBE, CHR 0xD1, CHR 0x80, CHR 0xD0,
    CHR 0xBC, CHR 0xD0, CHR 0xB8, CHR 0xD1, CHR 0x80, CHR 0xD0, CHR 0xBE, CHR 0xD0, CHR 0xB2,
    CHR 0xD0, CHR 0xB0, CHR 0xD0, CHR 0xBD, CHR 0xD0, CHR 0xB8, CHR 0xD1, CHR 0x8F, CHR 0x20,
    CHR 0xD0, CHR 0xBE, CHR 0xD1, CHR 0x82, CHR 0xD0, CHR 0xB2, CHR 0xD0, CHR 0xB5, CHR 0xD1,
    CHR 0x82, CHR 0xD0, CHR 0xB0, CHR 0x2E]"

text \<open>Lines 146 and 150: the pieces of the heading of one rendered document.\<close>

definition source_prefix :: string where
  "source_prefix = [
    CHR 0xD0, CHR 0x98, CHR 0xD1, CHR 0x81, CHR 0xD1, CHR 0x82, CHR 0xD0, CHR 0xBE, CHR 0xD1,
    CHR 0x87, CHR 0xD0, CHR 0xBD, CHR 0xD0, CHR 0xB8, CHR 0xD0, CHR 0xBA, CHR 0x3A, CHR 0x20]"

definition doc_prefix :: string where
  "doc_prefix = [
    CHR 0x2D, CHR 0x2D, CHR 0x2D, CHR 0x20, CHR 0xD0, CHR 0x94, CHR 0xD0, CHR 0xBE, CHR 0xD0,
    CHR 0xBA, CHR 0xD1, CHR 0x83, CHR 0xD0, CHR 0xBC, CHR 0xD0, CHR 0xB5, CHR 0xD0, CHR 0xBD,
    CHR 0xD1, CHR 0x82, CHR 0x20]"

definition doc_middle :: string where
  "doc_middle = [
    CHR 0x20, CHR 0x28, CHR 0xD1, CHR 0x81, CHR 0xD1, CHR 0x85, CHR 0xD0, CHR 0xBE, CHR 0xD0,
    CHR 0xB4, CHR 0xD1, CHR 0x81, CHR 0xD1, CHR 0x82, CHR 0xD0, CHR 0xB2, CHR 0xD0, CHR 0xBE,
    CHR 0x3A, CHR 0x20]"

text \<open>Line 164: the title of a source without one.\<close>

definition unknown_source :: string where
  "unknown_source = [
    CHR 0xD0, CHR 0x9D, CHR 0xD0, CHR 0xB5, CHR 0xD0, CHR 0xB8, CHR 0xD0, CHR 0xB7, CHR 0xD0,
    CHR 0xB2, CHR 0xD0, CHR 0xB5, CHR 0xD1, CHR 0x81, CHR 0xD1, CHR 0x82, CHR 0xD0, CHR 0xBD,
    CHR 0xD1, CHR 0x8B, CHR 0xD0, CHR 0xB9, CHR 0x20, CHR 0xD0, CHR 0xB8, CHR 0xD1, CHR 0x81,
    CHR 0xD1, CHR 0x82, CHR 0xD0, CHR 0xBE, CHR 0xD1, CHR 0x87, CHR 0xD0, CHR 0xBD, CHR 0xD0,
    CHR 0xB8, CHR 0xD0, CHR 0xBA]"

text \<open>Line 66: the error of a failed generation that names none.\<close>

definition unknown_error :: string where
  "unknown_error = [
    CHR 0xD0, CHR 0x9D, CHR 0xD0, CHR 0xB5, CHR 0xD0, CHR 0xB8, CHR 0xD0, CHR 0xB7, CHR 0xD0,
    CHR 0xB2, CHR 0xD0, CHR 0xB5, CHR 0xD1, CHR 0x81, CHR 0xD1, CHR 0x82, CHR 0xD0, CHR 0xBD,
    CHR 0xD0, CHR 0xB0, CHR 0xD1, CHR 0x8F, CHR 0x20, CHR 0xD0, CHR 0xBE, CHR 0xD1, CHR 0x88,
    CHR 0xD0, CHR 0xB8, CHR 0xD0, CHR 0xB1, CHR 0xD0, CHR 0xBA, CHR 0xD0, CHR 0xB0]"

text \<open>Line 74: the content of the result built when an exception is caught.\<close>

definition error_content :: string where
  "error_content = [
    CHR 0xD0, CHR 0x98, CHR 0xD0, CHR 0xB7, CHR 0xD0, CHR 0xB2, CHR 0xD0, CHR 0xB8, CHR 0xD0,
    CHR 0xBD, CHR 0xD0, CHR 0xB8, CHR 0xD1, CHR 0x82, CHR 0xD0, CHR 0xB5, CHR 0x2C, CHR 0x20,
    CHR 0xD0, CHR 0xBF, CHR 0xD1, CHR 0x80, CHR 0xD0, CHR 0xBE, CHR 0xD0, CHR 0xB8, CHR 0xD0,
    CHR 0xB7, CHR 0xD0, CHR 0xBE, CHR 0xD1, CHR 0x88, CHR 0xD0, CHR 0xBB, CHR 0xD0, CHR 0xB0,
    CHR 0x20, CHR 0xD0, CHR 0xBE, CHR 0xD1, CHR 0x88, CHR 0xD0, CHR 0xB8, CHR 0xD0, CHR 0xB1,
    CHR 0xD0, CHR 0xBA, CHR 0xD0, CHR 0xB0, CHR 0x20, CHR 0xD0, CHR 0xBF, CHR 0xD1, CHR 0x80,
    CHR 0xD0, CHR 0xB8, CHR 0x20, CHR 0xD0, CHR 0xBE, CHR 0xD0, CHR 0xB1, CHR 0xD1, CHR 0x80,
    CHR 0xD0, CHR 0xB0, CHR 0xD0, CHR 0xB1, CHR 0xD0, CHR 0xBE, CHR 0xD1, CHR 0x82, CHR 0xD0,
    CHR 0xBA, CHR 0xD0, CHR 0xB5, CHR 0x20, CHR 0xD0, CHR 0xB2, CHR 0xD0, CHR 0xB0, CHR 0xD1,
    CHR 0x88, CHR 0xD0, CHR 0xB5, CHR 0xD0, CHR 0xB3, CHR 0xD0, CHR 0xBE, CHR 0x20, CHR 0xD0,
    CHR 0xB7, CHR 0xD0, CHR 0xB0, CHR 0xD0, CHR 0xBF, CHR 0xD1, CHR 0x80, CHR 0xD0, CHR 0xBE,
    CHR 0xD1, CHR 0x81, CHR 0xD0, CHR 0xB0, CHR 0x2E, CHR 0x20, CHR 0xD0, CHR 0x9F, CHR 0xD0,
    CHR 0xBE, CHR 0xD0, CHR 0xBF, CHR 0xD1, CHR 0x80, CHR 0xD0, CHR 0xBE, CHR 0xD0, CHR 0xB1,
    CHR 0xD1, CHR 0x83, CHR 0xD0, CHR 0xB9, CHR 0xD1, CHR 0x82, CHR 0xD0, CHR 0xB5, CHR 0x20,
    CHR 0xD0, CHR 0xBF, CHR 0xD0, CHR 0xBE, CHR 0xD0, CHR 0xB7, CHR 0xD0, CHR 0xB6, CHR 0xD0,
    CHR 0xB5, CHR 0x2E]"

subsection \<open>Prompt assembly\<close>

text \<open>
  A message sent to a model: a dictionary with the keys \<^verbatim>\<open>role\<close> and
  \<^verbatim>\<open>content\<close>. (The field is \<open>msg_content\<close>, \<open>content\<close> being a field of
  \<open>response\<close>.)
\<close>

record message =
  role :: string
  msg_content :: string

text \<open>\<^verbatim>\<open>"\n".join(parts)\<close>.\<close>

fun join_lines :: "string list \<Rightarrow> string" where
  "join_lines [] = []"
| "join_lines [part] = part"
| "join_lines (part # rest) = part @ [CHR 0x0A] @ join_lines rest"

text \<open>The decimal digits of a natural number, as \<^verbatim>\<open>f"{i}"\<close> prints it.\<close>

function str_nat :: "nat \<Rightarrow> string" where
  "str_nat n =
     (if n < 10 then [''0123456789'' ! n]
      else str_nat (n div 10) @ [''0123456789'' ! (n mod 10)])"
  by pat_completeness auto
termination
  by (relation "measure (\<lambda>n. n)") auto

declare str_nat.simps [simp del]

text \<open>
  Lines 139--153, the body of the loop of \<^verbatim>\<open>_format_context_for_prompt\<close>: the parts
  appended for the result number \<open>i\<close>. The results are those of \<^verbatim>\<open>search_similar\<close>,
  which carry every key. \<^verbatim>\<open>metadata.get("title")\<close> is false for an absent and for an
  empty title. The format \<^verbatim>\<open>{similarity:.2f}\<close> of a float is a built-in: the
  parameter \<open>fmt\<close>.
\<close>

definition render_result :: "(npfloat \<Rightarrow> string) \<Rightarrow> nat \<Rightarrow> found \<Rightarrow> string list" where
  "render_result fmt i result =
     (let meta = found_metadata result;
          source_info = [];
          source_info = (case title meta of
                           Some t \<Rightarrow> if t \<noteq> [] then source_info @ source_prefix @ t
                                     else source_info
                         | None \<Rightarrow> source_info);
          source_info = (case source_url meta of
                           Some u \<Rightarrow> if u \<noteq> [] then source_info @ '' ('' @ u @ '')''
                                     else source_info
                         | None \<Rightarrow> source_info)
      in [doc_prefix @ str_nat i @ doc_middle @ fmt (similarity result) @ '') ---''] @
         (if source_info \<noteq> [] then [source_info] else []) @
         [found_text result @ [CHR 0x0A]])"

text \<open>The loop of lines 138--153, with the index \<open>i\<close> and the list \<^verbatim>\<open>context_parts\<close>.\<close>

fun context_parts_loop ::
    "(npfloat \<Rightarrow> string) \<Rightarrow> nat \<Rightarrow> found list \<Rightarrow> string list \<Rightarrow> string list" where
  "context_parts_loop fmt i [] context_parts = context_parts"
| "context_parts_loop fmt i (result # rest) context_parts =
     context_parts_loop fmt (Suc i) rest (context_parts @ render_result fmt i result)"

text \<open>\<^verbatim>\<open>RAGEngine._format_context_for_prompt\<close>, lines 132--155.\<close>

definition format_context_for_prompt :: "(npfloat \<Rightarrow> string) \<Rightarrow> found list \<Rightarrow> string" where
  "format_context_for_prompt fmt context_results =
     (if context_results = [] then []
      else join_lines (context_parts_loop fmt 1 context_results []))"

text \<open>
  \<^verbatim>\<open>RAGEngine._build_messages\<close>, lines 101--130: \<^verbatim>\<open>messages\<close> grows by appends.
  \<^verbatim>\<open>session_context\<close> defaults to \<^verbatim>\<open>None\<close>, and an empty list is false too.
\<close>

definition build_messages ::
    "(npfloat \<Rightarrow> string) \<Rightarrow> string \<Rightarrow> found list \<Rightarrow> message list option \<Rightarrow> message list" where
  "build_messages fmt query context_results session_context =
     (let messages = [];
          messages = messages @ [\<lparr>role = ''system'', msg_content = system_prompt_text\<rparr>];
          messages =
            (if context_results \<noteq> []
             then messages @
                  [\<lparr>role = ''system'',
                    msg_content = context_header @
                      format_context_for_prompt fmt context_results @ context_footer\<rparr>]
             else messages);
          messages = (case session_context of
                        Some turns \<Rightarrow> if turns \<noteq> [] then messages @ turns else messages
                      | None \<Rightarrow> messages);
          messages = messages @ [\<lparr>role = ''user'', msg_content = query\<rparr>]
      in messages)"

subsection \<open>Conversation context\<close>

text \<open>
  A turn of the stored history: a dictionary in which each of the keys \<^verbatim>\<open>role\<close>,
  \<^verbatim>\<open>content\<close> and \<^verbatim>\<open>timestamp\<close> may be absent (\<open>None\<close>).
\<close>

record turn =
  turn_role :: "string option"
  turn_content :: "string option"
  timestamp :: "real option"

text \<open>Line 180.\<close>

definition max_context_length :: nat where
  "max_context_length = 10"

text \<open>
  Lines 223--229, the loop over \<^verbatim>\<open>recent_messages\<close>. \<^verbatim>\<open>msg.get("role")\<close> is
  \<^verbatim>\<open>None\<close> for a turn without role; \<^verbatim>\<open>msg["content"]\<close> raises \<^verbatim>\<open>KeyError\<close>
  for a kept turn without content.
\<close>

fun filter_messages :: "turn list \<Rightarrow> message list \<Rightarrow> exn + message list" where
  "filter_messages [] filtered_messages = Inr filtered_messages"
| "filter_messages (msg # rest) filtered_messages =
     (case turn_role msg of
        Some r \<Rightarrow>
          if r \<in> set [''user'', ''assistant'']
          then (case turn_content msg of
                  Some c \<Rightarrow>
                    filter_messages rest (filtered_messages @ [\<lparr>role = r, msg_content = c\<rparr>])
                | None \<Rightarrow> Inl (KeyError ''content''))
          else filter_messages rest filtered_messages
      | None \<Rightarrow> filter_messages rest filtered_messages)"

text \<open>\<^verbatim>\<open>ConversationManager._prepare_session_context\<close>, lines 214--231.\<close>

definition prepare_session_context :: "turn list option \<Rightarrow> exn + message list" where
  "prepare_session_context conversation_history =
     (case conversation_history of
        None \<Rightarrow> Inr []
      | Some history \<Rightarrow>
          if history = [] then Inr []
          else filter_messages (py_last max_context_length history) [])"

text \<open>
  Python lists are mutable objects passed by reference. To state what
  \<^verbatim>\<open>update_conversation_history\<close> does to the list of its caller, the lists of turns
  live in a store: the list objects allocated so far, a reference being an index into it.
  A new object goes to the end of the store.
\<close>

type_synonym ref = nat

type_synonym store = "turn list list"

text \<open>A fresh list object with the given elements: \<^verbatim>\<open>[]\<close>, \<^verbatim>\<open>xs.copy()\<close>, a slice.\<close>

definition new_list :: "store \<Rightarrow> turn list \<Rightarrow> store \<times> ref" where
  "new_list st xs = (st @ [xs], length st)"

text \<open>\<^verbatim>\<open>xs.append(x)\<close>: the object itself changes.\<close>

definition list_append :: "store \<Rightarrow> ref \<Rightarrow> turn \<Rightarrow> store" where
  "list_append st r x = st[r := st ! r @ [x]]"

text \<open>The two dictionaries appended at lines 239--250.\<close>

definition user_turn :: "string \<Rightarrow> real \<Rightarrow> turn" where
  "user_turn user_message now =
     \<lparr>turn_role = Some ''user'', turn_content = Some user_message, timestamp = Some now\<rparr>"

definition assistant_turn :: "string \<Rightarrow> real \<Rightarrow> turn" where
  "assistant_turn assistant_response now =
     \<lparr>turn_role = Some ''assistant'', turn_content = Some assistant_response,
      timestamp = Some now\<rparr>"

text \<open>
  \<^verbatim>\<open>ConversationManager.update_conversation_history\<close>, lines 233--256. \<open>now1\<close> and
  \<open>now2\<close> are the two readings of \<^verbatim>\<open>time.time()\<close>. The result is the store after the
  call and the reference returned.
\<close>

definition update_conversation_history ::
    "store \<Rightarrow> ref option \<Rightarrow> string \<Rightarrow> string \<Rightarrow> real \<Rightarrow> real \<Rightarrow> store \<times> ref" where
  "update_conversation_history st history user_message assistant_response now1 now2 =
     (let (st, updated_history) =
            (case history of
               Some h \<Rightarrow> if st ! h \<noteq> [] then new_list st (st ! h) else new_list st []
             | None \<Rightarrow> new_list st []);
          st = list_append st updated_history (user_turn user_message now1);
          st = list_append st updated_history (assistant_turn assistant_response now2)
      in if length (st ! updated_history) > max_context_length * 2
         then new_list st (py_last (max_context_length * 2) (st ! updated_history))
         else (st, updated_history))"

subsection \<open>The orchestrator\<close>

text \<open>An element of \<^verbatim>\<open>context_sources\<close> (lines 162--167).\<close>

record context_source =
  source_id :: string
  source_title :: string
  url :: "string option"
  source_similarity :: npfloat

text \<open>
  The dictionary \<^verbatim>\<open>process_query\<close> returns. The keys \<^verbatim>\<open>tokens_used\<close>,
  \<^verbatim>\<open>context_sources\<close> and \<^verbatim>\<open>similarity_scores\<close> are absent from the result of
  the handler, and \<^verbatim>\<open>error\<close> from a successful result: these fields are optional.
  \<^verbatim>\<open>content\<close> and \<^verbatim>\<open>model_used\<close> may be \<^verbatim>\<open>None\<close>.
\<close>

record rag_result =
  rag_content :: "string option"
  model_used :: "string option"
  rag_tokens_used :: "nat option"
  rag_response_time :: real
  context_sources :: "context_source list option"
  similarity_scores :: "npfloat list option"
  rag_success :: bool
  rag_error :: "string option"

text \<open>
  \<^verbatim>\<open>RAGEngine._retrieve_context\<close>, lines 81--99, from the outcome of
  \<^verbatim>\<open>vector_store_manager.search_relevant_context\<close> on: an exception of the
  collaborator is caught here and gives no context. The role of the user only selects the
  metadata filter handed to the search, so it is part of that outcome.
\<close>

definition retrieve_context :: "exn + found list \<Rightarrow> found list" where
  "retrieve_context searched = (case searched of Inr context_results \<Rightarrow> context_results | Inl e \<Rightarrow> [])"

text \<open>Lines 157--168 and 170--172.\<close>

definition format_context_sources :: "found list \<Rightarrow> context_source list" where
  "format_context_sources context_results =
     map (\<lambda>result.
            \<lparr>source_id = found_id result,
             source_title = (case title (found_metadata result) of
                               Some t \<Rightarrow> t | None \<Rightarrow> unknown_source),
             url = source_url (found_metadata result),
             source_similarity = similarity result\<rparr>)
         context_results"

definition format_similarity_scores :: "found list \<Rightarrow> npfloat list" where
  "format_similarity_scores context_results = map similarity context_results"

text \<open>
  Lines 38--69, the body of the \<^verbatim>\<open>try\<close> of \<^verbatim>\<open>process_query\<close>. The collaborators
  are given by their outcomes: \<open>searched\<close> for the context search, \<open>generate\<close> for
  \<^verbatim>\<open>llm_manager.generate_response\<close> as a function of the messages and the preferred
  model; either may raise. \<open>start_time\<close> and \<open>end_time\<close> are the readings of the clock.
\<close>

definition process_query_try ::
    "(npfloat \<Rightarrow> string) \<Rightarrow> (exn + found list) \<Rightarrow>
     (message list \<Rightarrow> string option \<Rightarrow> exn + response) \<Rightarrow>
     string \<Rightarrow> message list option \<Rightarrow> string option \<Rightarrow> real \<Rightarrow> real \<Rightarrow> exn + rag_result" where
  "process_query_try fmt searched generate query session_context preferred_model
       start_time end_time =
     (let context_results = retrieve_context searched;
          messages = build_messages fmt query context_results session_context
      in bind_exn (generate messages preferred_model) (\<lambda>llm_response.
           Inr \<lparr>rag_content = content llm_response,
                model_used = Some (model llm_response),
                rag_tokens_used = Some (case tokens_used llm_response of
                                          Some n \<Rightarrow> n | None \<Rightarrow> 0),
                rag_response_time = end_time - start_time,
                context_sources = Some (format_context_sources context_results),
                similarity_scores = Some (format_similarity_scores context_results),
                rag_success = success llm_response,
                rag_error = (if \<not> success llm_response
                             then Some (case error llm_response of
                                          Some e \<Rightarrow> e | None \<Rightarrow> unknown_error)
                             else None)\<rparr>))"

text \<open>
  \<^verbatim>\<open>RAGEngine.process_query\<close>, lines 32--79: the \<^verbatim>\<open>try\<close> and its handler (lines
  71--79). The result type keeps the possibility of an exception leaving the function
  (\<open>Inl\<close>). \<open>str\<close> is the built-in that prints an exception.
\<close>

definition process_query ::
    "(exn \<Rightarrow> string) \<Rightarrow> (npfloat \<Rightarrow> string) \<Rightarrow> (exn + found list) \<Rightarrow>
     (message list \<Rightarrow> string option \<Rightarrow> exn + response) \<Rightarrow>
     string \<Rightarrow> message list option \<Rightarrow> string option \<Rightarrow> real \<Rightarrow> real \<Rightarrow> exn + rag_result" where
  "process_query str fmt searched generate query session_context preferred_model
       start_time end_time =
     (case process_query_try fmt searched generate query session_context preferred_model
             start_time end_time of
        Inr result \<Rightarrow> Inr result
      | Inl e \<Rightarrow>
          Inr \<lparr>rag_content = Some error_content,
               model_used = Some ''error'',
               rag_tokens_used = None,
               rag_response_time = end_time - start_time,
               context_sources = None,
               similarity_scores = None,
               rag_success = False,
               rag_error = Some (str e)\<rparr>)"

text \<open>
  Vocabulary for statements about the window: a turn is kept when its role is
  \<^verbatim>\<open>user\<close> or \<^verbatim>\<open>assistant\<close>, and the message made of a kept turn has its role and
  its content.
\<close>

definition is_dialogue :: "turn \<Rightarrow> bool" where
  "is_dialogue t = (turn_role t = Some ''user'' \<or> turn_role t = Some ''assistant'')"

definition to_message :: "turn \<Rightarrow> message" where
  "to_message t =
     \<lparr>role = (case turn_role t of Some r \<Rightarrow> r | None \<Rightarrow> []),
      msg_content = (case turn_content t of Some c \<Rightarrow> c | None \<Rightarrow> [])\<rparr>"

text \<open>Sample inputs of the engine, used to evaluate it.\<close>

definition stored_turn :: "string \<Rightarrow> string \<Rightarrow> turn" where
  "stored_turn r c = \<lparr>turn_role = Some r, turn_content = Some c, timestamp = None\<rparr>"

definition twelve_turns :: "turn list" where
  "twelve_turns =
     [stored_turn ''user'' ''q1'', stored_turn ''assistant'' ''a1'',
      stored_turn ''system'' ''note'', stored_turn ''assistant'' ''a2'',
      stored_turn ''user'' ''q3'', stored_turn ''assistant'' ''a3'',
      stored_turn ''user'' ''q4'', stored_turn ''assistant'' ''a4'',
      stored_turn ''user'' ''q5'', stored_turn ''system'' ''note'',
      stored_turn ''user'' ''q6'', stored_turn ''assistant'' ''a6'']"

definition one_found :: found where
  "one_found = \<lparr>found_id = ''chunk-1'', found_text = ''ssl setup'',
     found_metadata = \<lparr>title = Some ''SSL'', source_url = Some ''http://wiki/ssl''\<rparr>,
     distance = Num (1 / 4), similarity = Num (3 / 4)\<rparr>"

section \<open>Properties of the generation router\<close>

lemma attempt_Cons_Suc: "attempt ps n (m # ms) (Suc i) = attempt ps (Suc n) ms i"
  by (simp add: attempt_def split: option.splits)

lemma attempt_Cons_0: "ps m = Some p \<Longrightarrow> attempt ps n (m # ms) 0 = p n"
  by (simp add: attempt_def)

lemma try_models_exhausted:
  "\<forall>j < length (filter (\<lambda>m. m \<in> dom ps) ms).
      \<not> succeeds (attempt ps (length called) (filter (\<lambda>m. m \<in> dom ps) ms) j)
   \<Longrightarrow> try_models ps ms called = (sentinel, called @ filter (\<lambda>m. m \<in> dom ps) ms)"
proof (induction ms arbitrary: called)
  case Nil
  then show ?case by simp
next
  case (Cons m ms)
  show ?case
  proof (cases "ps m")
    case None
    then have "filter (\<lambda>m. m \<in> dom ps) (m # ms) = filter (\<lambda>m. m \<in> dom ps) ms"
      by (simp add: domIff)
    with Cons None show ?thesis by simp
  next
    case (Some p)
    let ?att = "filter (\<lambda>m. m \<in> dom ps) ms"
    from Some have att: "filter (\<lambda>m. m \<in> dom ps) (m # ms) = m # ?att"
      by (simp add: domIff)
    from Cons.prems att have "\<not> succeeds (attempt ps (length called) (m # ?att) 0)"
      by auto
    with Some have head: "\<not> succeeds (p (length called))"
      by (simp add: attempt_def)
    have tail: "\<forall>j < length ?att. \<not> succeeds (attempt ps (length (called @ [m])) ?att j)"
    proof (intro allI impI)
      fix j assume "j < length ?att"
      then have "Suc j < length (m # ?att)" by simp
      with Cons.prems have "\<not> succeeds (attempt ps (length called) (m # ?att) (Suc j))"
        unfolding att by blast
      then show "\<not> succeeds (attempt ps (length (called @ [m])) ?att j)"
        by (simp add: attempt_Cons_Suc)
    qed
    from Cons.IH [OF tail] have "try_models ps ms (called @ [m]) = (sentinel, called @ m # ?att)"
      by simp
    with head Some att show ?thesis
      by (simp add: succeeds_def split: outcome.splits)
  qed
qed

lemma try_models_first_success:
  "i < length (filter (\<lambda>m. m \<in> dom ps) ms) \<Longrightarrow>
   \<forall>j < i. \<not> succeeds (attempt ps (length called) (filter (\<lambda>m. m \<in> dom ps) ms) j) \<Longrightarrow>
   attempt ps (length called) (filter (\<lambda>m. m \<in> dom ps) ms) i = Returned r \<Longrightarrow>
   success r \<Longrightarrow>
   try_models ps ms called = (r, called @ take (Suc i) (filter (\<lambda>m. m \<in> dom ps) ms))"
proof (induction ms arbitrary: called i)
  case Nil
  then show ?case by simp
next
  case (Cons m ms)
  show ?case
  proof (cases "ps m")
    case None
    then have "filter (\<lambda>m. m \<in> dom ps) (m # ms) = filter (\<lambda>m. m \<in> dom ps) ms"
      by (simp add: domIff)
    with Cons None show ?thesis by simp
  next
    case (Some p)
    let ?att = "filter (\<lambda>m. m \<in> dom ps) ms"
    from Some have att: "filter (\<lambda>m. m \<in> dom ps) (m # ms) = m # ?att"
      by (simp add: domIff)
    show ?thesis
    proof (cases i)
      case 0
      with Cons.prems att Some have "p (length called) = Returned r"
        by (simp add: attempt_def)
      with Some \<open>success r\<close> 0 att show ?thesis by simp
    next
      case (Suc k)
      from Cons.prems(2) att Suc have "\<not> succeeds (attempt ps (length called) (m # ?att) 0)"
        by auto
      with Some have head: "\<not> succeeds (p (length called))"
        by (simp add: attempt_def)
      from Cons.prems(1) att Suc have k: "k < length ?att" by simp
      have before: "\<forall>j < k. \<not> succeeds (attempt ps (length (called @ [m])) ?att j)"
      proof (intro allI impI)
        fix j assume "j < k"
        then have "Suc j < i" using Suc by simp
        with Cons.prems(2) have "\<not> succeeds (attempt ps (length called) (m # ?att) (Suc j))"
          unfolding att by blast
        then show "\<not> succeeds (attempt ps (length (called @ [m])) ?att j)"
          by (simp add: attempt_Cons_Suc)
      qed
      from Cons.prems(3) att Suc
      have at_k: "attempt ps (length (called @ [m])) ?att k = Returned r"
        by (simp add: attempt_Cons_Suc)
      from Cons.IH [OF k before at_k \<open>success r\<close>]
      have "try_models ps ms (called @ [m]) = (r, called @ m # take (Suc k) ?att)"
        by simp
      with head Some att Suc show ?thesis
        by (simp add: succeeds_def split: outcome.splits)
    qed
  qed
qed

lemma spec_fold:
  "distinct ms \<Longrightarrow>
   foldl (\<lambda>order m. if m \<in> set order \<or> m \<notin> dom ps then order else order @ [m]) acc ms =
   acc @ filter (\<lambda>m. m \<in> dom ps \<and> m \<notin> set acc) ms"
proof (induction ms arbitrary: acc)
  case Nil
  then show ?case by simp
next
  case (Cons m ms)
  then have d: "distinct ms" and m: "m \<notin> set ms" by simp_all
  show ?case
  proof (cases "m \<in> set acc \<or> m \<notin> dom ps")
    case True
    with Cons.IH [OF d, of acc] show ?thesis by auto
  next
    case False
    have "filter (\<lambda>x. x \<in> dom ps \<and> x \<notin> set (acc @ [m])) ms =
          filter (\<lambda>x. x \<in> dom ps \<and> x \<notin> set acc) ms"
      using m by (intro filter_cong) auto
    with Cons.IH [OF d, of "acc @ [m]"] False show ?thesis by simp
  qed
qed

text \<open>
  Claim C1, as stated, fails: with \<^verbatim>\<open>gigachat\<close> and \<^verbatim>\<open>deepseek\<close> configured,
  the shipped settings (default \<^verbatim>\<open>gigachat\<close>, fallbacks \<^verbatim>\<open>deepseek\<close>,
  \<^verbatim>\<open>openai\<close>) and the valid preferred model \<^verbatim>\<open>deepseek\<close>, the attempt order is
  \<^verbatim>\<open>deepseek\<close> alone. The configured default is not in it, where the order of the
  specification is \<^verbatim>\<open>deepseek\<close>, \<^verbatim>\<open>gigachat\<close>; and when \<^verbatim>\<open>deepseek\<close> fails
  the router answers with the sentinel without calling \<^verbatim>\<open>gigachat\<close>.
\<close>

theorem model_order_counterexample:
  "attempt_order two_providers shipped_settings (Some ''deepseek'') = [''deepseek''] \<and>
   default_model shipped_settings \<in> dom two_providers \<and>
   default_model shipped_settings \<notin> set (attempt_order two_providers shipped_settings (Some ''deepseek'')) \<and>
   spec_attempt_order two_providers shipped_settings (Some ''deepseek'') = [''deepseek'', ''gigachat''] \<and>
   generate_response two_providers shipped_settings (Some ''deepseek'') = (sentinel, [''deepseek''])"
  by (simp add: attempt_order_def model_order_def spec_attempt_order_def two_providers_def
      shipped_settings_def generate_response_def failing_def)

text \<open>
  Claim C1, amended: with a preferred model that is provided and configured, the attempt
  order is that model followed by the configured models of the fallback list other than
  it, in listed order; otherwise it is the default model, if configured, followed by the
  configured models of the fallback list other than the default, in listed order. When no
  configured preferred model is given, the default is configured and the fallback list has
  no duplicates, this is the order of the specification, and the default model is in it.
\<close>

theorem attempt_order_as_built:
  "(preferred_model = Some p \<and> p \<noteq> [] \<and> p \<in> dom ps \<longrightarrow>
      attempt_order ps st preferred_model =
        p # filter (\<lambda>m. m \<in> dom ps \<and> m \<noteq> p) (fallback_models st)) \<and>
   ((\<forall>q. preferred_model = Some q \<longrightarrow> q = [] \<or> q \<notin> dom ps) \<longrightarrow>
      attempt_order ps st preferred_model =
        (if default_model st \<in> dom ps then [default_model st] else []) @
        filter (\<lambda>m. m \<in> dom ps \<and> m \<noteq> default_model st) (fallback_models st)) \<and>
   ((\<forall>q. preferred_model = Some q \<longrightarrow> q \<notin> dom ps) \<and> default_model st \<in> dom ps \<and>
    distinct (fallback_models st) \<longrightarrow>
      attempt_order ps st preferred_model = spec_attempt_order ps st preferred_model \<and>
      default_model st \<in> set (attempt_order ps st preferred_model))"
proof -
  have first: "attempt_order ps st preferred_model =
        p # filter (\<lambda>m. m \<in> dom ps \<and> m \<noteq> p) (fallback_models st)"
    if "preferred_model = Some p \<and> p \<noteq> [] \<and> p \<in> dom ps"
    using that by (simp add: attempt_order_def model_order_def conj_commute cong: conj_cong)
  have second: "attempt_order ps st preferred_model =
        (if default_model st \<in> dom ps then [default_model st] else []) @
        filter (\<lambda>m. m \<in> dom ps \<and> m \<noteq> default_model st) (fallback_models st)"
    if a: "\<forall>q. preferred_model = Some q \<longrightarrow> q = [] \<or> q \<notin> dom ps"
  proof -
    have "model_order ps st preferred_model = [default_model st] @
          filter (\<lambda>m. m \<in> dom ps \<and> m \<noteq> default_model st) (fallback_models st)"
      using a by (auto simp: model_order_def split: option.splits)
    then show ?thesis
      by (simp add: attempt_order_def cong: conj_cong)
  qed
  have third: "attempt_order ps st preferred_model = spec_attempt_order ps st preferred_model \<and>
      default_model st \<in> set (attempt_order ps st preferred_model)"
    if a: "(\<forall>q. preferred_model = Some q \<longrightarrow> q \<notin> dom ps) \<and> default_model st \<in> dom ps \<and>
      distinct (fallback_models st)"
  proof -
    from a have "\<forall>q. preferred_model = Some q \<longrightarrow> q = [] \<or> q \<notin> dom ps" by blast
    from second [OF this] a
    have ao: "attempt_order ps st preferred_model = default_model st #
          filter (\<lambda>m. m \<in> dom ps \<and> m \<noteq> default_model st) (fallback_models st)"
      by simp
    from a have start:
      "(case preferred_model of Some p \<Rightarrow> if p \<in> dom ps then [p] else [] | None \<Rightarrow> [])
         = ([]::string list)"
      by (auto split: option.splits)
    have "spec_attempt_order ps st preferred_model = default_model st #
          filter (\<lambda>m. m \<in> dom ps \<and> m \<noteq> default_model st) (fallback_models st)"
      using a by (simp add: spec_attempt_order_def start spec_fold)
    with ao show ?thesis by simp
  qed
  from first second third show ?thesis by blast
qed

theorem attempt_order_as_built_witness:
  "attempt_order two_providers shipped_settings (Some ''deepseek'') = [''deepseek''] \<and>
   attempt_order two_providers shipped_settings (Some ''openai'') = [''gigachat'', ''deepseek''] \<and>
   attempt_order two_providers shipped_settings None =
     spec_attempt_order two_providers shipped_settings None \<and>
   ''gigachat'' \<in> set (attempt_order two_providers shipped_settings None)"
proof -
  have dom: "dom two_providers = {''gigachat'', ''deepseek''}"
    by (auto simp: two_providers_def)
  have h1: "Some ''deepseek'' = Some ''deepseek'' \<and> ''deepseek'' \<noteq> [] \<and> ''deepseek'' \<in> dom two_providers"
    by (simp add: dom)
  have h2: "\<forall>q. Some ''openai'' = Some q \<longrightarrow> q = [] \<or> q \<notin> dom two_providers"
    by (simp add: dom)
  have h3: "(\<forall>q. (None :: string option) = Some q \<longrightarrow> q \<notin> dom two_providers) \<and>
      default_model shipped_settings \<in> dom two_providers \<and>
      distinct (fallback_models shipped_settings)"
    by (simp add: dom shipped_settings_def)
  note t = attempt_order_as_built
  from t [of "Some ''deepseek''" "''deepseek''" two_providers shipped_settings] h1
  have c1: "attempt_order two_providers shipped_settings (Some ''deepseek'') = [''deepseek'']"
    by (simp add: dom shipped_settings_def)
  from t [of "Some ''openai''" "''openai''" two_providers shipped_settings] h2
  have c2: "attempt_order two_providers shipped_settings (Some ''openai'') = [''gigachat'', ''deepseek'']"
    by (simp add: dom shipped_settings_def)
  from t [of None "''x''" two_providers shipped_settings] h3
  have c3: "attempt_order two_providers shipped_settings None =
     spec_attempt_order two_providers shipped_settings None \<and>
     default_model shipped_settings \<in> set (attempt_order two_providers shipped_settings None)"
    by blast
  have "default_model shipped_settings = ''gigachat''"
    by (simp add: shipped_settings_def)
  with c3 have c4: "''gigachat'' \<in> set (attempt_order two_providers shipped_settings None)"
    by metis
  from c1 c2 c3 c4 show ?thesis by blast
qed

text \<open>
  Claim C2: whatever the attempt order and the outcomes of the providers, if every attempt
  fails (or the order is empty, no model being configured) the router returns the sentinel
  after calling every model of the order once, in order; and if attempt \<open>i\<close> is the first
  that succeeds, the router returns the result of that attempt and the providers called
  are exactly the first \<open>i + 1\<close> models of the order, so none after it. The sentinel has
  the fixed apology text, the model name \<^verbatim>\<open>fallback\<close> and \<^verbatim>\<open>success\<close> false.
\<close>

theorem generate_response_stops_at_first_success:
  "((\<forall>j < length (attempt_order ps st pm).
        \<not> succeeds (attempt ps 0 (attempt_order ps st pm) j)) \<longrightarrow>
      generate_response ps st pm = (sentinel, attempt_order ps st pm)) \<and>
   (\<forall>i r. i < length (attempt_order ps st pm) \<and>
        (\<forall>j < i. \<not> succeeds (attempt ps 0 (attempt_order ps st pm) j)) \<and>
        attempt ps 0 (attempt_order ps st pm) i = Returned r \<and> success r \<longrightarrow>
      generate_response ps st pm = (r, take (Suc i) (attempt_order ps st pm))) \<and>
   content sentinel = Some sentinel_content \<and> model sentinel = ''fallback'' \<and>
   \<not> success sentinel"
proof (intro conjI allI impI)
  assume "\<forall>j < length (attempt_order ps st pm).
        \<not> succeeds (attempt ps 0 (attempt_order ps st pm) j)"
  then show "generate_response ps st pm = (sentinel, attempt_order ps st pm)"
    using try_models_exhausted [of ps "model_order ps st pm" "[]"]
    by (simp add: generate_response_def attempt_order_def)
next
  fix i r
  assume "i < length (attempt_order ps st pm) \<and>
        (\<forall>j < i. \<not> succeeds (attempt ps 0 (attempt_order ps st pm) j)) \<and>
        attempt ps 0 (attempt_order ps st pm) i = Returned r \<and> success r"
  then show "generate_response ps st pm = (r, take (Suc i) (attempt_order ps st pm))"
    using try_models_first_success [of i ps "model_order ps st pm" "[]" r]
    by (simp add: generate_response_def attempt_order_def)
qed (simp_all add: sentinel_def)

theorem generate_response_stops_at_first_success_witness:
  "generate_response (three_providers(''openai'' := None)) shipped_settings None =
     (sentinel, [''gigachat'', ''deepseek'']) \<and>
   generate_response three_providers reordered_settings None =
     (answer, [''deepseek'', ''openai''])"
proof -
  let ?ps = "three_providers(''openai'' := None)"
  have ao1: "attempt_order ?ps shipped_settings None = [''gigachat'', ''deepseek'']"
    by (simp add: attempt_order_def model_order_def three_providers_def shipped_settings_def)
  have h1: "\<forall>j < length (attempt_order ?ps shipped_settings None).
        \<not> succeeds (attempt ?ps 0 (attempt_order ?ps shipped_settings None) j)"
    unfolding ao1
    by (simp add: less_Suc_eq attempt_def succeeds_def three_providers_def
        raising_def failing_def)
  have ao2: "attempt_order three_providers reordered_settings None =
      [''deepseek'', ''openai'', ''gigachat'']"
    by (simp add: attempt_order_def model_order_def three_providers_def reordered_settings_def)
  have h2: "1 < length (attempt_order three_providers reordered_settings None) \<and>
        (\<forall>j < 1. \<not> succeeds (attempt three_providers 0
             (attempt_order three_providers reordered_settings None) j)) \<and>
        attempt three_providers 0 (attempt_order three_providers reordered_settings None) 1 =
          Returned answer \<and> success answer"
    unfolding ao2
    by (simp add: attempt_def succeeds_def three_providers_def failing_def answering_def
        answer_def)
  note t = generate_response_stops_at_first_success
  from t [of ?ps shipped_settings None] h1
  have "generate_response ?ps shipped_settings None =
     (sentinel, attempt_order ?ps shipped_settings None)"
    by blast
  then have c1: "generate_response ?ps shipped_settings None = (sentinel, [''gigachat'', ''deepseek''])"
    by (simp only: ao1)
  from t [of three_providers reordered_settings None] h2
  have "generate_response three_providers reordered_settings None =
     (answer, take (Suc 1) (attempt_order three_providers reordered_settings None))"
    by blast
  then have c2: "generate_response three_providers reordered_settings None =
     (answer, [''deepseek'', ''openai''])"
    by (simp add: ao2)
  from c1 c2 show ?thesis by simp
qed

section \<open>Properties of the scores\<close>

lemma fadd_NaN_right: "fadd x NaN = NaN"
  by (cases x) simp_all

lemma fmul_NaN_right: "fmul x NaN = NaN"
  by (cases x) simp_all

lemma foldl_fadd_NaN: "foldl fadd NaN xs = NaN"
  by (induction xs) simp_all

lemma foldl_fadd_replicate_NaN: "0 < n \<Longrightarrow> foldl fadd acc (replicate n NaN) = NaN"
  by (cases n) (simp_all add: fadd_NaN_right foldl_fadd_NaN)

lemma sum_squares_nonneg: "0 \<le> sum_list (map (\<lambda>x. x * x) (vec :: real list))"
  by (induction vec) simp_all

lemma sum_squares_zero:
  "sum_list (map (\<lambda>x. x * x) (vec :: real list)) = 0 \<Longrightarrow> x \<in> set vec \<Longrightarrow> x = 0"
proof (induction vec)
  case Nil
  then show ?case by simp
next
  case (Cons y ys)
  have "0 \<le> y * y" by simp
  moreover have "0 \<le> sum_list (map (\<lambda>x. x * x) ys)" by (rule sum_squares_nonneg)
  moreover from Cons.prems have "y * y + sum_list (map (\<lambda>x. x * x) ys) = 0" by simp
  ultimately have "y * y = 0" and "sum_list (map (\<lambda>x. x * x) ys) = 0"
    by linarith+
  with Cons show ?case by auto
qed

lemma zero_norm_divide:
  assumes "linalg_norm vec = 0"
  shows "map (\<lambda>x. np_divide x (linalg_norm vec)) vec = replicate (length vec) NaN"
proof -
  from assms have "sum_list (map (\<lambda>x. x * x) vec) = 0"
    by (simp add: linalg_norm_def)
  then have "\<forall>x \<in> set vec. x = 0" using sum_squares_zero by blast
  then have "\<forall>x \<in> set vec. np_divide x (linalg_norm vec) = NaN"
    using assms by (simp add: np_divide_def)
  then show ?thesis by (simp add: map_replicate_const cong: map_cong)
qed

lemma map2_fmul_NaN_left:
  "length ys = n \<Longrightarrow> map2 fmul (replicate n NaN) ys = replicate n NaN"
  by (induction n arbitrary: ys) (auto simp: length_Suc_conv)

lemma map2_fmul_NaN_right:
  "length xs = n \<Longrightarrow> map2 fmul xs (replicate n NaN) = replicate n NaN"
  by (induction n arbitrary: xs) (auto simp: length_Suc_conv fmul_NaN_right)

text \<open>
  Claim C3 is right and \<^verbatim>\<open>calculate_similarity\<close> does not meet it: for two
  non-empty embeddings of the same length, one of which has norm zero, the computed
  similarity is NaN, not \<open>0\<close>. The division by the norm is an array division and raises
  nothing, so the handler that returns \<^verbatim>\<open>0.0\<close> is not reached. At the embeddings
  \<^verbatim>\<open>[0.0, 0.0]\<close> and \<^verbatim>\<open>[1.0, 0.0]\<close> the result is NaN.
\<close>

theorem calculate_similarity_zero_norm:
  "embedding1 \<noteq> [] \<Longrightarrow> length embedding1 = length embedding2 \<Longrightarrow>
   linalg_norm embedding1 = 0 \<or> linalg_norm embedding2 = 0 \<Longrightarrow>
   calculate_similarity embedding1 embedding2 = NaN"
proof -
  assume ne: "embedding1 \<noteq> []" and len: "length embedding1 = length embedding2"
    and z: "linalg_norm embedding1 = 0 \<or> linalg_norm embedding2 = 0"
  let ?n = "length embedding1"
  let ?v1 = "map (\<lambda>x. np_divide x (linalg_norm embedding1)) embedding1"
  let ?v2 = "map (\<lambda>x. np_divide x (linalg_norm embedding2)) embedding2"
  from ne have pos: "0 < ?n" by simp
  have "map2 fmul ?v1 ?v2 = replicate ?n NaN"
  proof (cases "linalg_norm embedding1 = 0")
    case True
    then have "?v1 = replicate ?n NaN" by (rule zero_norm_divide)
    then show ?thesis using len by (simp add: map2_fmul_NaN_left)
  next
    case False
    with z have "linalg_norm embedding2 = 0" by simp
    then have "?v2 = replicate (length embedding2) NaN" by (rule zero_norm_divide)
    then show ?thesis using len by (simp add: map2_fmul_NaN_right)
  qed
  then have "np_dot ?v1 ?v2 = Inr NaN"
    using len pos by (simp add: np_dot_def foldl_fadd_replicate_NaN)
  then show ?thesis by (simp add: calculate_similarity_def)
qed

theorem calculate_similarity_zero_norm_witness:
  "[0, 0] \<noteq> ([] :: real list) \<and> length [0, 0 :: real] = length [1, 0 :: real] \<and>
   linalg_norm [0, 0] = 0 \<and> calculate_similarity [0, 0] [1, 0] = NaN \<and> NaN \<noteq> Num 0"
proof -
  have n: "linalg_norm [0, 0] = 0" by (simp add: linalg_norm_def)
  then have "linalg_norm [0, 0] = 0 \<or> linalg_norm [1, 0] = 0" by simp
  from calculate_similarity_zero_norm [of "[0, 0]" "[1, 0]", OF _ _ this]
  have "calculate_similarity [0, 0] [1, 0] = NaN" by simp
  with n show ?thesis by simp
qed

lemma set_insert_desc: "set (insert_desc key x xs) = insert x (set xs)"
  by (induction xs) auto

lemma set_foldl_insert_desc:
  "set (foldl (\<lambda>sorted x. insert_desc key x sorted) acc xs) = set acc \<union> set xs"
  by (induction xs arbitrary: acc) (simp_all add: set_insert_desc)

lemma set_sort_desc: "set (sort_desc key xs) = set xs"
  by (simp add: sort_desc_def set_foldl_insert_desc)

lemma set_py_take: "set (py_take k xs) \<subseteq> set xs"
  by (auto simp: py_take_def dest: in_set_takeD)

lemma keyword_search_scores:
  "(d, s) \<in> set (keyword_search lower split query docs top_k) \<Longrightarrow>
   s = overlap_score lower split query d"
  using set_py_take [of top_k "sort_desc snd (map (\<lambda>doc. (doc, overlap_score lower split query doc)) docs)"]
  by (auto simp: keyword_search_def set_sort_desc)

lemma overlap_score_empty_query:
  "set (split (lower query)) = {} \<Longrightarrow> overlap_score lower split query d = Num 0"
  by (simp add: overlap_score_def)

lemma keyword_search_empty_query:
  "set (split (lower query)) = {} \<Longrightarrow>
   (d, s) \<in> set (keyword_search lower split query docs top_k) \<Longrightarrow> s = Num 0"
proof -
  assume e: "set (split (lower query)) = {}"
    and m: "(d, s) \<in> set (keyword_search lower split query docs top_k)"
  from m have "s = overlap_score lower split query d" by (rule keyword_search_scores)
  also from e have "\<dots> = Num 0" by (rule overlap_score_empty_query)
  finally show ?thesis .
qed

lemma in_unit_overlap_score: "in_unit (overlap_score lower split query d)"
proof -
  let ?q = "set (split (lower query))"
  let ?d = "set (split (lower (doc_text d)))"
  have "card (?q \<inter> ?d) \<le> card ?q"
    by (rule card_mono) simp_all
  then have "real (card (?q \<inter> ?d)) / real (card ?q) \<le> 1"
    by (cases "card ?q = 0") (simp_all add: divide_le_eq_1 card_gt_0_iff)
  then show ?thesis
    by (simp add: overlap_score_def Let_def)
qed

lemma keyword_search_in_unit:
  "(d, s) \<in> set (keyword_search lower split query docs top_k) \<Longrightarrow> in_unit s"
  using keyword_search_scores [of d s lower split query docs top_k]
  by (simp add: in_unit_overlap_score)

lemma in_unit_one_minus: "in_unit (fsub (Num 1) d) = in_unit d"
  by (cases d) (auto simp: fsub_def)

lemma format_result_similarity:
  "format_result results i = Inr f \<Longrightarrow> similarity f = fsub (Num 1) (distance f)"
  by (auto simp: format_result_def bind_exn_def split: sum.splits)

lemma format_results_similarity:
  "format_results results is acc = Inr fs \<Longrightarrow>
   \<forall>f \<in> set acc. similarity f = fsub (Num 1) (distance f) \<Longrightarrow>
   \<forall>f \<in> set fs. similarity f = fsub (Num 1) (distance f)"
proof (induction "is" arbitrary: acc)
  case Nil
  then show ?case by simp
next
  case (Cons i rest)
  from Cons.prems(1) obtain f where f: "format_result results i = Inr f"
    and r: "format_results results rest (acc @ [f]) = Inr fs"
    by (auto simp: bind_exn_def split: sum.splits)
  from f Cons.prems(2) have "\<forall>g \<in> set (acc @ [f]). similarity g = fsub (Num 1) (distance g)"
    by (auto dest: format_result_similarity)
  from Cons.IH [OF r this] show ?case .
qed

lemma search_similar_cases:
  "search_similar queried = [] \<or>
   (\<exists>results. format_results results [0..<length (hd (documents results))] [] =
      Inr (search_similar queried))"
proof (cases queried)
  case (Inl e)
  then show ?thesis by (simp add: search_similar_def)
next
  case (Inr results)
  show ?thesis
  proof (cases "documents results \<noteq> [] \<and> hd (documents results) \<noteq> []")
    case False
    then consider "documents results = []"
      | "documents results \<noteq> []" and "hd (documents results) = []"
      by blast
    then have "search_similar queried = []"
    proof cases
      case 1
      with Inr show ?thesis by (simp add: search_similar_def)
    next
      case 2
      with Inr show ?thesis by (simp add: search_similar_def)
    qed
    then show ?thesis by simp
  next
    case True
    show ?thesis
    proof (cases "format_results results [0..<length (hd (documents results))] []")
      case (Inl e)
      with Inr True show ?thesis by (simp add: search_similar_def)
    next
      case fs: (Inr fs)
      with Inr True have "search_similar queried = fs" by (simp add: search_similar_def)
      with fs show ?thesis by blast
    qed
  qed
qed

lemma search_similar_similarity:
  "f \<in> set (search_similar queried) \<Longrightarrow> similarity f = fsub (Num 1) (distance f)"
proof -
  assume m: "f \<in> set (search_similar queried)"
  then have "search_similar queried \<noteq> []" by auto
  with search_similar_cases [of queried] obtain results where
    fs: "format_results results [0..<length (hd (documents results))] [] =
      Inr (search_similar queried)"
    by blast
  have "\<forall>g \<in> set ([] :: found list). similarity g = fsub (Num 1) (distance g)" by simp
  from format_results_similarity [OF fs this] m show ?thesis by blast
qed

lemma foldl_fadd_Num:
  "foldl fadd (Num a) (map Num xs) = Num (a + sum_list xs)"
  by (induction xs arbitrary: a) (simp_all add: add.assoc)

lemma map2_fmul_Num:
  "map2 fmul (map Num xs) (map Num ys) = map Num (map2 (*) xs ys)"
  by (induction xs arbitrary: ys) (auto simp: zip_Cons1 split: list.splits)

lemma calculate_similarity_cosine:
  assumes "length embedding1 = length embedding2"
    and "linalg_norm embedding1 \<noteq> 0" and "linalg_norm embedding2 \<noteq> 0"
  shows "calculate_similarity embedding1 embedding2 =
    Num (sum_list (map2 (*) (map (\<lambda>x. x / linalg_norm embedding1) embedding1)
                           (map (\<lambda>x. x / linalg_norm embedding2) embedding2)))"
proof -
  have d1: "map (\<lambda>x. np_divide x (linalg_norm embedding1)) embedding1 =
      map Num (map (\<lambda>x. x / linalg_norm embedding1) embedding1)"
    using assms(2) by (simp add: np_divide_def)
  have d2: "map (\<lambda>x. np_divide x (linalg_norm embedding2)) embedding2 =
      map Num (map (\<lambda>x. x / linalg_norm embedding2) embedding2)"
    using assms(3) by (simp add: np_divide_def)
  show ?thesis
    unfolding calculate_similarity_def Let_def d1 d2 np_dot_def
    using assms(1) by (simp only: map2_fmul_Num foldl_fadd_Num length_map) simp
qed

text \<open>
  Claim C4, as stated, fails: no score is clamped. A distance of \<open>1.5\<close> returned by the
  index gives the similarity \<open>-0.5\<close>, a NaN distance gives a NaN similarity, and the
  cosine similarity of \<open>[1, 0]\<close> and \<open>[-1, 0]\<close> is \<open>-1\<close>: each is surfaced as it is,
  outside \<open>[0,1]\<close>. (These values are exact in binary floating point, so the idealisation
  of finite floats as reals does not affect them.)
\<close>

theorem unclamped_scores_counterexample:
  "map similarity (search_similar (Inr (one_result (Num (3 / 2))))) = [Num (- 1 / 2)] \<and>
   \<not> in_unit (Num (- 1 / 2)) \<and>
   map similarity (search_similar (Inr (one_result NaN))) = [NaN] \<and>
   \<not> in_unit NaN \<and>
   calculate_similarity [1, 0] [- 1, 0] = Num (- 1) \<and>
   \<not> in_unit (Num (- 1))"
  by (simp add: search_similar_def one_result_def format_result_def first_query_nth_def
      py_nth_def bind_exn_def fsub_def calculate_similarity_def np_dot_def linalg_norm_def
      np_divide_def)

text \<open>
  Claim C4, amended: the similarity of every result of \<^verbatim>\<open>search_similar\<close> is exactly
  \<open>1 - distance\<close>, with no clamping, so that it lies in \<open>[0,1]\<close> exactly when the distance
  does; every keyword score lies in \<open>[0,1]\<close>; and for two embeddings of the same length
  with non-zero norms the vector similarity is the dot product of the normalised vectors,
  unclamped.
\<close>

theorem scores_as_computed:
  "(\<forall>f \<in> set (search_similar queried).
      similarity f = fsub (Num 1) (distance f) \<and>
      in_unit (similarity f) = in_unit (distance f)) \<and>
   (\<forall>(d, s) \<in> set (keyword_search lower split query docs top_k). in_unit s) \<and>
   (length embedding1 = length embedding2 \<and> linalg_norm embedding1 \<noteq> 0 \<and>
    linalg_norm embedding2 \<noteq> 0 \<longrightarrow>
      calculate_similarity embedding1 embedding2 =
        Num (sum_list (map2 (*) (map (\<lambda>x. x / linalg_norm embedding1) embedding1)
                               (map (\<lambda>x. x / linalg_norm embedding2) embedding2))))"
proof (intro conjI ballI impI)
  fix f assume "f \<in> set (search_similar queried)"
  then show s: "similarity f = fsub (Num 1) (distance f)"
    by (rule search_similar_similarity)
  then show "in_unit (similarity f) = in_unit (distance f)"
    by (simp add: in_unit_one_minus)
next
  fix x assume "x \<in> set (keyword_search lower split query docs top_k)"
  moreover obtain d s where "x = (d, s)" by (cases x)
  ultimately show "case x of (d, s) \<Rightarrow> in_unit s"
    using keyword_search_in_unit [of d s lower split query docs top_k] by simp
next
  assume "length embedding1 = length embedding2 \<and> linalg_norm embedding1 \<noteq> 0 \<and>
    linalg_norm embedding2 \<noteq> 0"
  then show "calculate_similarity embedding1 embedding2 =
        Num (sum_list (map2 (*) (map (\<lambda>x. x / linalg_norm embedding1) embedding1)
                               (map (\<lambda>x. x / linalg_norm embedding2) embedding2)))"
    by (simp add: calculate_similarity_cosine)
qed

theorem scores_as_computed_witness:
  "map similarity (search_similar (Inr (one_result (Num (1 / 4))))) = [Num (3 / 4)] \<and>
   in_unit (Num (3 / 4)) \<and>
   keyword_search ascii_lower ascii_split ''SSL setup'' [ssl_config] 5 =
     [(ssl_config, Num (1 / 2))] \<and>
   in_unit (Num (1 / 2)) \<and>
   length [1, 0 :: real] = length [0, 1 :: real] \<and> linalg_norm [1, 0] \<noteq> 0 \<and>
   linalg_norm [0, 1] \<noteq> 0 \<and> calculate_similarity [1, 0] [0, 1] = Num 0"
proof -
  let ?f = "\<lparr>found_id = ''chunk-1'', found_text = ''ssl setup'',
     found_metadata = \<lparr>title = Some ''SSL'', source_url = None\<rparr>,
     distance = Num (1 / 4), similarity = Num (3 / 4)\<rparr>"
  have s: "search_similar (Inr (one_result (Num (1 / 4)))) = [?f]"
    by (simp add: search_similar_def one_result_def format_result_def first_query_nth_def
        py_nth_def bind_exn_def fsub_def)
  have k: "keyword_search ascii_lower ascii_split ''SSL setup'' [ssl_config] 5 =
     [(ssl_config, Num (1 / 2))]"
    by (simp add: keyword_search_def overlap_score_def ascii_lower_def ascii_split_def
        ssl_config_def sort_desc_def py_take_def)
  have n: "length [1, 0 :: real] = length [0, 1 :: real] \<and> linalg_norm [1, 0] \<noteq> 0 \<and>
      linalg_norm [0, 1] \<noteq> 0"
    by (simp add: linalg_norm_def)
  note t = scores_as_computed [of "Inr (one_result (Num (1 / 4)))" ascii_lower ascii_split
      "''SSL setup''" "[ssl_config]" 5 "[1, 0]" "[0, 1]"]
  from s have "?f \<in> set (search_similar (Inr (one_result (Num (1 / 4)))))" by simp
  with t have "in_unit (similarity ?f) = in_unit (distance ?f)" by blast
  then have u1: "in_unit (Num (3 / 4))" by simp
  from k have "(ssl_config, Num (1 / 2)) \<in>
      set (keyword_search ascii_lower ascii_split ''SSL setup'' [ssl_config] 5)"
    by simp
  with t have u2: "in_unit (Num (1 / 2))" by fast
  from t n have "calculate_similarity [1, 0] [0, 1] =
      Num (sum_list (map2 (*) (map (\<lambda>x. x / linalg_norm [1, 0]) [1, 0])
                             (map (\<lambda>x. x / linalg_norm [0, 1]) [0, 1])))"
    by blast
  then have c: "calculate_similarity [1, 0] [0, 1] = Num 0" by simp
  from s k n u1 u2 c show ?thesis by simp
qed

section \<open>Properties of the hybrid merge\<close>

text \<open>
  Claim C5 is right and the merge does not meet it: a candidate without a metadata id is
  keyed by its index in the first loop (line 209) and by \<^verbatim>\<open>hash(str(doc))\<close> in the
  second (line 224). Whenever the two differ, a candidate that is in both lists yields two
  entries, one with its vector score and keyword score \<open>0\<close>, one with its keyword score
  and vector score \<open>0\<close>. Here for a single document at index \<open>0\<close>.
\<close>

theorem hybrid_search_duplicates_candidate:
  "metadata_id d = None \<Longrightarrow> str_hash d \<noteq> 0 \<Longrightarrow>
   map (\<lambda>(doc_id, s). (doc_id, document s, vector_score s, keyword_score s))
     (case hybrid_search_scores str_hash [d] [(0, v)] [(d, k)] w of
        Inr combined \<Rightarrow> combined | Inl e \<Rightarrow> []) =
   [(PInt 0, d, v, Num 0), (PInt (str_hash d), d, Num 0, k)]"
  by (simp add: hybrid_search_scores_def bind_exn_def py_nth_def combine_scores_def)

theorem hybrid_search_duplicates_candidate_witness:
  "metadata_id ssl_config = None \<and> (\<lambda>doc. 7205759403792793) ssl_config \<noteq> (0::int) \<and>
   map (\<lambda>(doc_id, s). (doc_id, document s, vector_score s, keyword_score s))
     (case hybrid_search_scores (\<lambda>doc. 7205759403792793) [ssl_config]
             [(0, Num (9 / 10))] [(ssl_config, Num 1)] (Num (7 / 10)) of
        Inr combined \<Rightarrow> combined | Inl e \<Rightarrow> []) =
   [(PInt 0, ssl_config, Num (9 / 10), Num 0),
    (PInt 7205759403792793, ssl_config, Num 0, Num 1)]"
proof -
  have h1: "metadata_id ssl_config = None" by (simp add: ssl_config_def)
  have h2: "(\<lambda>doc. 7205759403792793) ssl_config \<noteq> (0::int)" by simp
  from hybrid_search_duplicates_candidate [of ssl_config "\<lambda>doc. 7205759403792793", OF h1 h2]
  show ?thesis using h1 by simp
qed

text \<open>
  What the merge does guarantee: the merged dictionary has one entry per key, and its keys
  are the keys of the vector results together with the keys of the keyword results. So a
  candidate yields one entry exactly when both loops give it the same key, as they do for
  every document that carries a metadata id.
\<close>

lemma keys_after_store:
  assumes "distinct (map fst combined)"
  shows "distinct (map fst (case map_of combined k of
                        None \<Rightarrow> combined @ [(k, fresh)]
                      | Some s \<Rightarrow> AList.update k (f s) combined)) \<and>
   fst ` set (case map_of combined k of
                None \<Rightarrow> combined @ [(k, fresh)]
              | Some s \<Rightarrow> AList.update k (f s) combined) = insert k (fst ` set combined)"
proof (cases "map_of combined k")
  case None
  then have "k \<notin> fst ` set combined" by (simp add: map_of_eq_None_iff)
  with None assms show ?thesis by auto
next
  case (Some s)
  with assms show ?thesis by (simp add: distinct_update dom_update)
qed

lemma add_vector_results_keys:
  "add_vector_results docs vector_results combined = Inr merged \<Longrightarrow>
   distinct (map fst combined) \<Longrightarrow>
   distinct (map fst merged) \<and>
   fst ` set merged = fst ` set combined \<union> vector_key docs ` fst ` set vector_results"
proof (induction vector_results arbitrary: combined)
  case Nil
  then show ?case by simp
next
  case (Cons r rest)
  obtain i sim where r: "r = (i, sim)" by (cases r)
  from Cons.prems(1) r have i: "i < length docs"
    by (auto simp: bind_exn_def py_nth_def split: if_splits)
  let ?k = "vector_key docs i"
  let ?next = "case map_of combined ?k of
      None \<Rightarrow> combined @ [(?k, \<lparr>document = docs ! i, vector_score = sim,
                                  keyword_score = Num 0, combined_score = Num 0\<rparr>)]
    | Some s \<Rightarrow> AList.update ?k (s\<lparr>vector_score := sim\<rparr>) combined"
  from Cons.prems(1) r i have rec: "add_vector_results docs rest ?next = Inr merged"
    unfolding vector_key_def by (simp add: bind_exn_def py_nth_def Let_def)
  from keys_after_store [OF Cons.prems(2), of ?k _ "\<lambda>s. s\<lparr>vector_score := sim\<rparr>"]
  have d: "distinct (map fst ?next)" and k: "fst ` set ?next = insert ?k (fst ` set combined)"
    by blast+
  from Cons.IH [OF rec d] k r show ?case by auto
qed

lemma add_keyword_results_keys:
  "distinct (map fst combined) \<Longrightarrow>
   distinct (map fst (add_keyword_results str_hash keyword_results combined)) \<and>
   fst ` set (add_keyword_results str_hash keyword_results combined) =
     fst ` set combined \<union> keyword_key str_hash ` fst ` set keyword_results"
proof (induction keyword_results arbitrary: combined)
  case Nil
  then show ?case by simp
next
  case (Cons r rest)
  obtain doc score where r: "r = (doc, score)" by (cases r)
  let ?k = "keyword_key str_hash doc"
  let ?next = "case map_of combined ?k of
      None \<Rightarrow> combined @ [(?k, \<lparr>document = doc, vector_score = Num 0,
                                  keyword_score = score, combined_score = Num 0\<rparr>)]
    | Some s \<Rightarrow> AList.update ?k (s\<lparr>keyword_score := score\<rparr>) combined"
  have rec: "add_keyword_results str_hash (r # rest) combined =
      add_keyword_results str_hash rest ?next"
    unfolding keyword_key_def by (simp add: r Let_def)
  from keys_after_store [OF Cons.prems, of ?k _ "\<lambda>s. s\<lparr>keyword_score := score\<rparr>"]
  have d: "distinct (map fst ?next)" and k: "fst ` set ?next = insert ?k (fst ` set combined)"
    by blast+
  from Cons.IH [OF d] k r show ?case unfolding rec by auto
qed

lemma combine_scores_keys: "map fst (combine_scores w combined) = map fst combined"
  by (induction combined) (auto simp: combine_scores_def)

lemma hybrid_search_scores_keys:
  assumes "hybrid_search_scores str_hash docs vector_results keyword_results w = Inr combined"
  shows "distinct (map fst combined)"
    and "fst ` set combined =
      vector_key docs ` fst ` set vector_results \<union>
      keyword_key str_hash ` fst ` set keyword_results"
proof -
  from assms obtain merged where
    v: "add_vector_results docs vector_results [] = Inr merged" and
    c: "combined = combine_scores w (add_keyword_results str_hash keyword_results merged)"
    by (auto simp: hybrid_search_scores_def bind_exn_def split: sum.splits)
  from add_vector_results_keys [OF v]
  have dm: "distinct (map fst merged)"
    and km: "fst ` set merged = vector_key docs ` fst ` set vector_results"
    by simp_all
  from add_keyword_results_keys [OF dm, of str_hash keyword_results] km
  have dk: "distinct (map fst (add_keyword_results str_hash keyword_results merged))"
    and kk: "fst ` set (add_keyword_results str_hash keyword_results merged) =
      vector_key docs ` fst ` set vector_results \<union>
      keyword_key str_hash ` fst ` set keyword_results"
    by simp_all
  from dk show "distinct (map fst combined)" by (simp add: c combine_scores_keys)
  have "fst ` set combined = set (map fst combined)" by simp
  also have "\<dots> = set (map fst (add_keyword_results str_hash keyword_results merged))"
    by (simp only: c combine_scores_keys)
  finally show "fst ` set combined =
      vector_key docs ` fst ` set vector_results \<union>
      keyword_key str_hash ` fst ` set keyword_results"
    using kk by simp
qed

lemma combine_scores_entry:
  "(doc_id, s) \<in> set (combine_scores w combined) \<Longrightarrow>
   combined_score s =
     fadd (fmul w (vector_score s)) (fmul (fsub (Num 1) w) (keyword_score s))"
  by (auto simp: combine_scores_def)

lemma convex_unit:
  fixes w v k :: real
  assumes "0 \<le> w" "w \<le> 1" "0 \<le> v" "v \<le> 1" "0 \<le> k" "k \<le> 1"
  shows "0 \<le> w * v + (1 - w) * k" and "w * v + (1 - w) * k \<le> 1"
proof -
  from assms show "0 \<le> w * v + (1 - w) * k" by simp
  have "w * v \<le> w * 1" using assms by (intro mult_left_mono) simp_all
  moreover have "(1 - w) * k \<le> (1 - w) * 1" using assms by (intro mult_left_mono) simp_all
  ultimately show "w * v + (1 - w) * k \<le> 1" by simp
qed

text \<open>
  Claim C6: every entry of the merged dictionary has the combined score
  \<open>w * v + (1 - w) * k\<close>, computed by that very expression from its vector score \<open>v\<close>, its
  keyword score \<open>k\<close> and the weight \<open>w\<close>; and when the three are numbers of \<open>[0,1]\<close>, so
  is the combined score.
\<close>

theorem combined_score_convex:
  "hybrid_search_scores str_hash docs vector_results keyword_results vector_weight = Inr combined
   \<Longrightarrow> (doc_id, s) \<in> set combined \<Longrightarrow>
   combined_score s =
     fadd (fmul vector_weight (vector_score s))
          (fmul (fsub (Num 1) vector_weight) (keyword_score s)) \<and>
   (\<forall>w v k. vector_weight = Num w \<and> vector_score s = Num v \<and> keyword_score s = Num k \<longrightarrow>
      combined_score s = Num (w * v + (1 - w) * k) \<and>
      (0 \<le> w \<and> w \<le> 1 \<and> 0 \<le> v \<and> v \<le> 1 \<and> 0 \<le> k \<and> k \<le> 1 \<longrightarrow>
         in_unit (combined_score s)))"
proof -
  assume h: "hybrid_search_scores str_hash docs vector_results keyword_results vector_weight =
      Inr combined"
    and m: "(doc_id, s) \<in> set combined"
  from h obtain merged where "combined = combine_scores vector_weight merged"
    by (auto simp: hybrid_search_scores_def bind_exn_def split: sum.splits)
  with m have c: "combined_score s =
     fadd (fmul vector_weight (vector_score s))
          (fmul (fsub (Num 1) vector_weight) (keyword_score s))"
    by (auto dest: combine_scores_entry)
  have "combined_score s = Num (w * v + (1 - w) * k) \<and>
      (0 \<le> w \<and> w \<le> 1 \<and> 0 \<le> v \<and> v \<le> 1 \<and> 0 \<le> k \<and> k \<le> 1 \<longrightarrow>
         in_unit (combined_score s))"
    if "vector_weight = Num w \<and> vector_score s = Num v \<and> keyword_score s = Num k" for w v k
  proof -
    from that c have e: "combined_score s = Num (w * v + (1 - w) * k)"
      by (simp add: fsub_def)
    moreover have "in_unit (Num (w * v + (1 - w) * k))"
      if "0 \<le> w \<and> w \<le> 1 \<and> 0 \<le> v \<and> v \<le> 1 \<and> 0 \<le> k \<and> k \<le> 1"
      using that convex_unit [of w v k] by simp
    ultimately show ?thesis by simp
  qed
  with c show ?thesis by blast
qed

theorem combined_score_convex_witness:
  "hybrid_search_scores (\<lambda>doc. 7205759403792793) [ssl_setup] [(0, Num (9 / 10))]
     [(ssl_setup, Num (1 / 5))] (Num (7 / 10)) =
   Inr [(PStr ''doc-1'', \<lparr>document = ssl_setup, vector_score = Num (9 / 10),
          keyword_score = Num (1 / 5), combined_score = Num (69 / 100)\<rparr>)] \<and>
   in_unit (Num (69 / 100))"
proof -
  let ?s = "\<lparr>document = ssl_setup, vector_score = Num (9 / 10),
          keyword_score = Num (1 / 5), combined_score = Num (69 / 100)\<rparr>"
  have h: "hybrid_search_scores (\<lambda>doc. 7205759403792793) [ssl_setup] [(0, Num (9 / 10))]
     [(ssl_setup, Num (1 / 5))] (Num (7 / 10)) = Inr [(PStr ''doc-1'', ?s)]"
    by (simp add: hybrid_search_scores_def bind_exn_def py_nth_def combine_scores_def
        ssl_setup_def fsub_def Let_def)
  have m: "(PStr ''doc-1'', ?s) \<in> set [(PStr ''doc-1'', ?s)]" by simp
  have "Num (7 / 10) = Num (7 / 10) \<and> vector_score ?s = Num (9 / 10) \<and>
      keyword_score ?s = Num (1 / 5)"
    by simp
  with combined_score_convex [OF h m]
  have "(0 \<le> (7 / 10 :: real) \<and> (7 / 10 :: real) \<le> 1 \<and> 0 \<le> (9 / 10 :: real) \<and>
         (9 / 10 :: real) \<le> 1 \<and> 0 \<le> (1 / 5 :: real) \<and> (1 / 5 :: real) \<le> 1 \<longrightarrow>
         in_unit (combined_score ?s))"
    by blast
  then have "in_unit (Num (69 / 100))" by simp
  with h show ?thesis by simp
qed

section \<open>Properties of the RAG engine\<close>

lemma context_parts_loop_eq:
  "context_parts_loop fmt i rs acc =
   acc @ concat (map2 (render_result fmt) [i..<i + length rs] rs)"
proof (induction rs arbitrary: i acc)
  case Nil
  then show ?case by simp
next
  case (Cons r rs)
  have "[i..<i + Suc (length rs)] = i # [Suc i..<i + Suc (length rs)]"
    by (rule upt_conv_Cons) simp
  then have "[i..<i + length (r # rs)] = i # [Suc i..<Suc i + length rs]"
    by simp
  with Cons.IH [of "Suc i" "acc @ render_result fmt i r"] show ?case by simp
qed

text \<open>
  Claim C7: for every query, list of retrieval results and history window, the assembled
  list is one system message with the fixed instructions; then, exactly when the list of
  retrieval results is not empty, one system message holding the rendering of each result,
  in order and numbered from 1; then the turns of the window as they are, in order; then
  one user message holding the query, which is the last message.
\<close>

theorem build_messages_order:
  "build_messages fmt query context_results session_context =
     [\<lparr>role = ''system'', msg_content = system_prompt_text\<rparr>] @
     (if context_results = [] then []
      else [\<lparr>role = ''system'',
             msg_content = context_header @
               join_lines (concat (map2 (render_result fmt)
                  [1..<Suc (length context_results)] context_results)) @
               context_footer\<rparr>]) @
     (case session_context of Some turns \<Rightarrow> turns | None \<Rightarrow> []) @
     [\<lparr>role = ''user'', msg_content = query\<rparr>] \<and>
   last (build_messages fmt query context_results session_context) =
     \<lparr>role = ''user'', msg_content = query\<rparr>"
  by (simp add: build_messages_def format_context_for_prompt_def context_parts_loop_eq
      Let_def split: option.splits)

theorem build_messages_order_witness:
  "build_messages (\<lambda>x. ''0.75'') ''how to set up ssl?'' []
     (Some [\<lparr>role = ''user'', msg_content = ''hi''\<rparr>,
            \<lparr>role = ''assistant'', msg_content = ''hello''\<rparr>]) =
     [\<lparr>role = ''system'', msg_content = system_prompt_text\<rparr>,
      \<lparr>role = ''user'', msg_content = ''hi''\<rparr>,
      \<lparr>role = ''assistant'', msg_content = ''hello''\<rparr>,
      \<lparr>role = ''user'', msg_content = ''how to set up ssl?''\<rparr>] \<and>
   build_messages (\<lambda>x. ''0.75'') ''q'' [one_found] None =
     [\<lparr>role = ''system'', msg_content = system_prompt_text\<rparr>,
      \<lparr>role = ''system'',
       msg_content = context_header @
         (doc_prefix @ ''1'' @ doc_middle @ ''0.75) ---'' @ [CHR 0x0A] @
          source_prefix @ ''SSL (http://wiki/ssl)'' @ [CHR 0x0A] @
          ''ssl setup'' @ [CHR 0x0A]) @ context_footer\<rparr>,
      \<lparr>role = ''user'', msg_content = ''q''\<rparr>]"
proof -
  note t = build_messages_order
  from t [of "\<lambda>x. ''0.75''" "''how to set up ssl?''" "[]"
      "Some [\<lparr>role = ''user'', msg_content = ''hi''\<rparr>,
            \<lparr>role = ''assistant'', msg_content = ''hello''\<rparr>]"]
  have a: "build_messages (\<lambda>x. ''0.75'') ''how to set up ssl?'' []
     (Some [\<lparr>role = ''user'', msg_content = ''hi''\<rparr>,
            \<lparr>role = ''assistant'', msg_content = ''hello''\<rparr>]) =
     [\<lparr>role = ''system'', msg_content = system_prompt_text\<rparr>,
      \<lparr>role = ''user'', msg_content = ''hi''\<rparr>,
      \<lparr>role = ''assistant'', msg_content = ''hello''\<rparr>,
      \<lparr>role = ''user'', msg_content = ''how to set up ssl?''\<rparr>]"
    by simp
  have r: "render_result (\<lambda>x. ''0.75'') (Suc 0) one_found =
      [doc_prefix @ ''1'' @ doc_middle @ ''0.75) ---'',
       source_prefix @ ''SSL (http://wiki/ssl)'', ''ssl setup'' @ [CHR 0x0A]]"
    by (simp add: render_result_def one_found_def Let_def str_nat.simps [of "Suc 0"])
  from t [of "\<lambda>x. ''0.75''" "''q''" "[one_found]" None]
  have b: "build_messages (\<lambda>x. ''0.75'') ''q'' [one_found] None =
     [\<lparr>role = ''system'', msg_content = system_prompt_text\<rparr>,
      \<lparr>role = ''system'',
       msg_content = context_header @
         (doc_prefix @ ''1'' @ doc_middle @ ''0.75) ---'' @ [CHR 0x0A] @
          source_prefix @ ''SSL (http://wiki/ssl)'' @ [CHR 0x0A] @
          ''ssl setup'' @ [CHR 0x0A]) @ context_footer\<rparr>,
      \<lparr>role = ''user'', msg_content = ''q''\<rparr>]"
    by (simp add: r)
  from a b show ?thesis by simp
qed

lemma filter_messages_kept:
  "\<forall>t \<in> set ts. is_dialogue t \<longrightarrow> turn_content t \<noteq> None \<Longrightarrow>
   filter_messages ts acc = Inr (acc @ map to_message (filter is_dialogue ts))"
proof (induction ts arbitrary: acc)
  case Nil
  then show ?case by simp
next
  case (Cons t ts)
  then have ih: "\<And>acc. filter_messages ts acc = Inr (acc @ map to_message (filter is_dialogue ts))"
    by simp
  show ?case
  proof (cases "is_dialogue t")
    case True
    with Cons.prems obtain c where c: "turn_content t = Some c" by auto
    from True obtain r where r: "turn_role t = Some r" and "r = ''user'' \<or> r = ''assistant''"
      by (auto simp: is_dialogue_def)
    with c True show ?thesis by (auto simp: ih to_message_def)
  next
    case False
    then have "turn_role t = None \<or>
        (\<exists>r. turn_role t = Some r \<and> r \<noteq> ''user'' \<and> r \<noteq> ''assistant'')"
      by (cases "turn_role t") (auto simp: is_dialogue_def)
    with False show ?thesis by (auto simp: ih)
  qed
qed

lemma filter_messages_raises:
  "\<exists>t \<in> set ts. is_dialogue t \<and> turn_content t = None \<Longrightarrow>
   filter_messages ts acc = Inl (KeyError ''content'')"
proof (induction ts arbitrary: acc)
  case Nil
  then show ?case by simp
next
  case (Cons t ts)
  show ?case
  proof (cases "is_dialogue t \<and> turn_content t = None")
    case True
    then have "turn_content t = None" and
      "turn_role t = Some ''user'' \<or> turn_role t = Some ''assistant''"
      by (auto simp: is_dialogue_def)
    then show ?thesis by auto
  next
    case False
    with Cons.prems have "\<exists>t \<in> set ts. is_dialogue t \<and> turn_content t = None" by auto
    then have ih: "\<And>acc. filter_messages ts acc = Inl (KeyError ''content'')"
      by (rule Cons.IH)
    show ?thesis
    proof (cases "turn_role t")
      case None
      then show ?thesis by (simp add: ih)
    next
      case (Some r)
      show ?thesis
      proof (cases "turn_content t")
        case None
        with False Some have "r \<noteq> ''user'' \<and> r \<noteq> ''assistant''"
          by (auto simp: is_dialogue_def)
        with Some show ?thesis by (simp add: ih)
      next
        case c: (Some c)
        with Some show ?thesis by (simp add: ih)
      qed
    qed
  qed
qed

lemma role_to_message:
  "is_dialogue t \<Longrightarrow> role (to_message t) = ''user'' \<or> role (to_message t) = ''assistant''"
  by (auto simp: is_dialogue_def to_message_def)

lemma prepare_session_context_cases:
  "prepare_session_context (Some history) =
     filter_messages (drop (length history - max_context_length) history) []"
  by (cases history) (simp_all add: prepare_session_context_def py_last_def max_context_length_def)

lemma update_conversation_history_store:
  "update_conversation_history st history user_message assistant_response now1 now2 =
    (let previous = (case history of Some h \<Rightarrow> st ! h | None \<Rightarrow> []);
         full = previous @ [user_turn user_message now1, assistant_turn assistant_response now2]
     in if length full > max_context_length * 2
        then (st @ [full, drop (length full - max_context_length * 2) full], Suc (length st))
        else (st @ [full], length st))"
proof -
  define previous where "previous = (case history of Some h \<Rightarrow> st ! h | None \<Rightarrow> [])"
  have copy: "(case history of
               Some h \<Rightarrow> if st ! h \<noteq> [] then new_list st (st ! h) else new_list st []
             | None \<Rightarrow> new_list st []) = (st @ [previous], length st)"
    by (auto simp: previous_def new_list_def split: option.splits)
  have app: "list_append (st @ [xs]) (length st) x = st @ [xs @ [x]]" for xs x
    by (simp add: list_append_def)
  show ?thesis
    unfolding update_conversation_history_def copy previous_def [symmetric]
    by (simp add: app new_list_def py_last_def max_context_length_def Let_def)
qed

text \<open>
  Claim C8: for every history, the window that \<^verbatim>\<open>_prepare_session_context\<close> returns
  is made of the turns with role \<^verbatim>\<open>user\<close> or \<^verbatim>\<open>assistant\<close> among the last
  \<open>max_context_length = 10\<close> turns, in their order, each with its role and content: it
  has at most 10 messages, all of these two roles. A window is returned whenever every such
  turn of the history has a \<^verbatim>\<open>content\<close>, as the turns of the conversation store do;
  the only other outcome is the \<^verbatim>\<open>KeyError\<close> of a kept turn without content. And the
  list that \<^verbatim>\<open>update_conversation_history\<close> returns is the previous history followed
  by the user turn and the assistant turn, cut to its last \<open>2 * 10\<close> turns.
\<close>

theorem session_context_window:
  "(case prepare_session_context (Some history) of
      Inr window \<Rightarrow>
        window = map to_message (filter is_dialogue
                   (drop (length history - max_context_length) history)) \<and>
        length window \<le> max_context_length \<and>
        (\<forall>m \<in> set window. role m = ''user'' \<or> role m = ''assistant'')
    | Inl e \<Rightarrow>
        e = KeyError ''content'' \<and>
        (\<exists>t \<in> set (drop (length history - max_context_length) history).
            is_dialogue t \<and> turn_content t = None)) \<and>
   ((\<forall>t \<in> set history. is_dialogue t \<longrightarrow> turn_content t \<noteq> None) \<longrightarrow>
      (\<exists>window. prepare_session_context (Some history) = Inr window)) \<and>
   (\<forall>st' u. update_conversation_history st h user_message assistant_response now1 now2 =
        (st', u) \<longrightarrow>
      (let previous = (case h of Some r \<Rightarrow> st ! r | None \<Rightarrow> []);
           full = previous @
             [user_turn user_message now1, assistant_turn assistant_response now2]
       in st' ! u = drop (length full - 2 * max_context_length) full \<and>
          length (st' ! u) \<le> 2 * max_context_length))"
proof (intro conjI)
  let ?recent = "drop (length history - max_context_length) history"
  have len: "length (map to_message (filter is_dialogue ?recent)) \<le> max_context_length"
  proof -
    have "length (filter is_dialogue ?recent) \<le> length ?recent" by (rule length_filter_le)
    also have "\<dots> \<le> max_context_length" by simp
    finally show ?thesis by simp
  qed
  have roles: "\<forall>m \<in> set (map to_message (filter is_dialogue ?recent)).
      role m = ''user'' \<or> role m = ''assistant''"
    by (auto dest: role_to_message)
  show "case prepare_session_context (Some history) of
      Inr window \<Rightarrow>
        window = map to_message (filter is_dialogue ?recent) \<and>
        length window \<le> max_context_length \<and>
        (\<forall>m \<in> set window. role m = ''user'' \<or> role m = ''assistant'')
    | Inl e \<Rightarrow>
        e = KeyError ''content'' \<and>
        (\<exists>t \<in> set ?recent. is_dialogue t \<and> turn_content t = None)"
  proof (cases "\<exists>t \<in> set ?recent. is_dialogue t \<and> turn_content t = None")
    case True
    then have "prepare_session_context (Some history) = Inl (KeyError ''content'')"
      unfolding prepare_session_context_cases by (rule filter_messages_raises)
    with True show ?thesis by simp
  next
    case False
    then have "\<forall>t \<in> set ?recent. is_dialogue t \<longrightarrow> turn_content t \<noteq> None" by simp
    then have "prepare_session_context (Some history) =
        Inr ([] @ map to_message (filter is_dialogue ?recent))"
      unfolding prepare_session_context_cases by (rule filter_messages_kept)
    with len roles show ?thesis by simp
  qed
  show "(\<forall>t \<in> set history. is_dialogue t \<longrightarrow> turn_content t \<noteq> None) \<longrightarrow>
      (\<exists>window. prepare_session_context (Some history) = Inr window)"
  proof
    assume "\<forall>t \<in> set history. is_dialogue t \<longrightarrow> turn_content t \<noteq> None"
    then have "\<forall>t \<in> set ?recent. is_dialogue t \<longrightarrow> turn_content t \<noteq> None"
      by (auto dest: in_set_dropD)
    then have "prepare_session_context (Some history) =
        Inr ([] @ map to_message (filter is_dialogue ?recent))"
      unfolding prepare_session_context_cases by (rule filter_messages_kept)
    then show "\<exists>window. prepare_session_context (Some history) = Inr window" by blast
  qed
next
  show "\<forall>st' u. update_conversation_history st h user_message assistant_response now1 now2 =
        (st', u) \<longrightarrow>
      (let previous = (case h of Some r \<Rightarrow> st ! r | None \<Rightarrow> []);
           full = previous @
             [user_turn user_message now1, assistant_turn assistant_response now2]
       in st' ! u = drop (length full - 2 * max_context_length) full \<and>
          length (st' ! u) \<le> 2 * max_context_length)"
    by (auto simp: update_conversation_history_store Let_def nth_append
        max_context_length_def split: if_splits)
qed

theorem session_context_window_witness:
  "prepare_session_context (Some twelve_turns) =
     Inr [\<lparr>role = ''assistant'', msg_content = ''a2''\<rparr>, \<lparr>role = ''user'', msg_content = ''q3''\<rparr>,
          \<lparr>role = ''assistant'', msg_content = ''a3''\<rparr>, \<lparr>role = ''user'', msg_content = ''q4''\<rparr>,
          \<lparr>role = ''assistant'', msg_content = ''a4''\<rparr>, \<lparr>role = ''user'', msg_content = ''q5''\<rparr>,
          \<lparr>role = ''user'', msg_content = ''q6''\<rparr>, \<lparr>role = ''assistant'', msg_content = ''a6''\<rparr>] \<and>
   (case update_conversation_history [twelve_turns @ twelve_turns] (Some 0) ''q7'' ''a7'' 1 2 of
      (st', u) \<Rightarrow>
        st' ! u = drop 6 (twelve_turns @ twelve_turns @
                    [user_turn ''q7'' 1, assistant_turn ''a7'' 2]) \<and>
        length (st' ! u) \<le> 20)"
proof -
  note t = session_context_window [of twelve_turns "[twelve_turns @ twelve_turns]" "Some 0"
      "''q7''" "''a7''" 1 2]
  have h: "\<forall>t \<in> set twelve_turns. is_dialogue t \<longrightarrow> turn_content t \<noteq> None"
    by (simp add: twelve_turns_def stored_turn_def)
  with t obtain window where w: "prepare_session_context (Some twelve_turns) = Inr window"
    by blast
  with t have "window = map to_message (filter is_dialogue
                   (drop (length twelve_turns - max_context_length) twelve_turns))"
    by simp
  then have "window =
     [\<lparr>role = ''assistant'', msg_content = ''a2''\<rparr>, \<lparr>role = ''user'', msg_content = ''q3''\<rparr>,
      \<lparr>role = ''assistant'', msg_content = ''a3''\<rparr>, \<lparr>role = ''user'', msg_content = ''q4''\<rparr>,
      \<lparr>role = ''assistant'', msg_content = ''a4''\<rparr>, \<lparr>role = ''user'', msg_content = ''q5''\<rparr>,
      \<lparr>role = ''user'', msg_content = ''q6''\<rparr>, \<lparr>role = ''assistant'', msg_content = ''a6''\<rparr>]"
    by (simp add: twelve_turns_def stored_turn_def max_context_length_def is_dialogue_def
        to_message_def)
  with w have a: "prepare_session_context (Some twelve_turns) =
     Inr [\<lparr>role = ''assistant'', msg_content = ''a2''\<rparr>, \<lparr>role = ''user'', msg_content = ''q3''\<rparr>,
          \<lparr>role = ''assistant'', msg_content = ''a3''\<rparr>, \<lparr>role = ''user'', msg_content = ''q4''\<rparr>,
          \<lparr>role = ''assistant'', msg_content = ''a4''\<rparr>, \<lparr>role = ''user'', msg_content = ''q5''\<rparr>,
          \<lparr>role = ''user'', msg_content = ''q6''\<rparr>, \<lparr>role = ''assistant'', msg_content = ''a6''\<rparr>]"
    by simp
  obtain st' u where e:
    "update_conversation_history [twelve_turns @ twelve_turns] (Some 0) ''q7'' ''a7'' 1 2 = (st', u)"
    by (cases "update_conversation_history [twelve_turns @ twelve_turns] (Some 0) ''q7'' ''a7'' 1 2")
  have l: "length twelve_turns = 12" by (simp add: twelve_turns_def)
  from t e have "st' ! u = drop (length ((twelve_turns @ twelve_turns) @
        [user_turn ''q7'' 1, assistant_turn ''a7'' 2]) - 2 * max_context_length)
        ((twelve_turns @ twelve_turns) @ [user_turn ''q7'' 1, assistant_turn ''a7'' 2]) \<and>
      length (st' ! u) \<le> 2 * max_context_length"
    by (simp add: Let_def)
  then have c: "st' ! u = drop 6 (twelve_turns @ twelve_turns @
                    [user_turn ''q7'' 1, assistant_turn ''a7'' 2]) \<and>
        length (st' ! u) \<le> 20"
    by (simp add: l max_context_length_def)
  show ?thesis unfolding e prod.case using a c by blast
qed

text \<open>
  Claim C10: \<^verbatim>\<open>update_conversation_history\<close> leaves the list of its caller as it was.
  For every store and every reference \<open>h\<close> to a list of it, after the call the list at
  \<open>h\<close>, and every list that existed before, is unchanged, and the reference returned is
  that of a list allocated by the call.
\<close>

theorem update_conversation_history_frame:
  "h < length st \<Longrightarrow>
   update_conversation_history st (Some h) user_message assistant_response now1 now2 = (st', u)
   \<Longrightarrow> st' ! h = st ! h \<and> take (length st) st' = st \<and> u \<noteq> h \<and> length st \<le> u \<and>
       u < length st'"
  by (auto simp: update_conversation_history_store Let_def nth_append split: if_splits)

theorem update_conversation_history_frame_witness:
  "0 < length [twelve_turns] \<and>
   (case update_conversation_history [twelve_turns] (Some 0) ''q7'' ''a7'' 1 2 of
      (st', u) \<Rightarrow> st' ! 0 = twelve_turns \<and> u = 1 \<and>
        st' ! u = twelve_turns @ [user_turn ''q7'' 1, assistant_turn ''a7'' 2])"
proof -
  obtain st' u where e:
    "update_conversation_history [twelve_turns] (Some 0) ''q7'' ''a7'' 1 2 = (st', u)"
    by (cases "update_conversation_history [twelve_turns] (Some 0) ''q7'' ''a7'' 1 2")
  have h: "0 < length [twelve_turns]" by simp
  from update_conversation_history_frame [OF h e]
  have f: "st' ! 0 = twelve_turns" by simp
  have l: "length twelve_turns = 12" by (simp add: twelve_turns_def)
  from e have c: "u = 1 \<and> st' ! u = twelve_turns @ [user_turn ''q7'' 1, assistant_turn ''a7'' 2]"
    by (auto simp: update_conversation_history_store Let_def l max_context_length_def)
  show ?thesis unfolding e prod.case using h f c by blast
qed

text \<open>
  Claim C9: whatever the collaborators do, \<^verbatim>\<open>process_query\<close> returns a result and
  raises nothing. An exception of the context search is absorbed by
  \<^verbatim>\<open>_retrieve_context\<close>; an exception of the generation is caught by the handler and
  gives a result with \<^verbatim>\<open>success\<close> false and the fixed apology; when the generation
  returns, the result carries its success flag and content.
\<close>

theorem process_query_never_raises:
  "\<exists>result.
     process_query str fmt searched generate query session_context preferred_model
       start_time end_time = Inr result \<and>
     (\<forall>e. generate (build_messages fmt query (retrieve_context searched) session_context)
             preferred_model = Inl e \<longrightarrow>
          \<not> rag_success result \<and> rag_content result = Some error_content \<and>
          rag_error result = Some (str e)) \<and>
     (\<forall>llm_response.
          generate (build_messages fmt query (retrieve_context searched) session_context)
             preferred_model = Inr llm_response \<longrightarrow>
          rag_success result = success llm_response \<and>
          rag_content result = content llm_response \<and>
          similarity_scores result = Some (map similarity (retrieve_context searched)))"
  by (cases "generate (build_messages fmt query (retrieve_context searched) session_context)
             preferred_model")
     (simp_all add: process_query_def process_query_try_def bind_exn_def Let_def
        format_similarity_scores_def)

theorem process_query_never_raises_witness:
  "process_query (\<lambda>e. ''boom'') (\<lambda>x. ''0.75'') (Inl (Exception ''index down''))
     (\<lambda>messages preferred. Inl (Exception ''boom'')) ''q'' None None 1 3 =
   Inr \<lparr>rag_content = Some error_content, model_used = Some ''error'', rag_tokens_used = None,
        rag_response_time = 2, context_sources = None, similarity_scores = None,
        rag_success = False, rag_error = Some ''boom''\<rparr> \<and>
   (\<exists>result. process_query (\<lambda>e. ''boom'') (\<lambda>x. ''0.75'') (Inl (Exception ''index down''))
     (\<lambda>messages preferred. Inr answer) ''q'' None None 1 3 = Inr result \<and>
     rag_success result \<and> rag_content result = Some ''ok'' \<and> similarity_scores result = Some [])"
proof -
  let ?gen1 = "\<lambda>(messages :: message list) (preferred :: string option).
      (Inl (Exception ''boom'') :: exn + response)"
  let ?gen2 = "\<lambda>(messages :: message list) (preferred :: string option).
      (Inr answer :: exn + response)"
  from process_query_never_raises [of "\<lambda>e. ''boom''" "\<lambda>x. ''0.75''" "Inl (Exception ''index down'')"
      ?gen1 "''q''" None None 1 3]
  obtain r1 where r1: "process_query (\<lambda>e. ''boom'') (\<lambda>x. ''0.75'') (Inl (Exception ''index down''))
       ?gen1 ''q'' None None 1 3 = Inr r1"
    by blast
  then have a: "r1 = \<lparr>rag_content = Some error_content, model_used = Some ''error'',
        rag_tokens_used = None, rag_response_time = 2, context_sources = None,
        similarity_scores = None, rag_success = False, rag_error = Some ''boom''\<rparr>"
    by (simp add: process_query_def process_query_try_def bind_exn_def Let_def)
  from process_query_never_raises [of "\<lambda>e. ''boom''" "\<lambda>x. ''0.75''" "Inl (Exception ''index down'')"
      ?gen2 "''q''" None None 1 3]
  obtain r2 where r2: "process_query (\<lambda>e. ''boom'') (\<lambda>x. ''0.75'') (Inl (Exception ''index down''))
       ?gen2 ''q'' None None 1 3 = Inr r2"
    and "rag_success r2 = success answer \<and> rag_content r2 = content answer \<and>
         similarity_scores r2 = Some (map similarity (retrieve_context (Inl (Exception ''index down''))))"
    by blast
  then have b: "rag_success r2 \<and> rag_content r2 = Some ''ok'' \<and> similarity_scores r2 = Some []"
    by (simp add: answer_def retrieve_context_def)
  from r1 a r2 b show ?thesis by simp
qed

end
